theory Spec2Isabelle
  imports Complex_Main "HOL-Library.AList"
begin

section \<open>Python values, exceptions and the scripted remote service\<close>

text \<open>
  The three example clients (\<^verbatim>\<open>quick_start.py\<close>, \<^verbatim>\<open>api_integration.py\<close>,
  \<^verbatim>\<open>batch_generation.py\<close>) talk to a remote service with \<^verbatim>\<open>POST /prompt\<close> and
  \<^verbatim>\<open>GET /history/<id>\<close>, read the clock with \<^verbatim>\<open>time.time()\<close> and wait with
  \<^verbatim>\<open>time.sleep\<close>. All times are integers in milliseconds, and the clock is
  exact: the rounding of Python's floating point clock and the time the client's own
  statements take are not modelled. The service is a script: the reply to the k-th POST
  and to the k-th GET of a job, and the time each call takes.
\<close>

datatype py_exception =
    KeyError string
  | TypeError string
  | ValueError string
  | AttributeError string
  | RequestException string
  | ZeroDivisionError
  | StatisticsError string

text \<open>A name between single quotes, as Python's messages and the repr of a string have it.\<close>

definition quoted :: "string \<Rightarrow> string" where
  "quoted name = CHR 0x27 # name @ [CHR 0x27]"

text \<open>\<^verbatim>\<open>str(e)\<close>: the message; a \<^verbatim>\<open>KeyError\<close> prints the repr of its key.\<close>

fun exception_str :: "py_exception \<Rightarrow> string" where
  "exception_str (KeyError k) = quoted k"
| "exception_str (TypeError m) = m"
| "exception_str (ValueError m) = m"
| "exception_str (AttributeError m) = m"
| "exception_str (RequestException m) = m"
| "exception_str ZeroDivisionError = ''division by zero''"
| "exception_str (StatisticsError m) = m"

text \<open>
  A reply to \<^verbatim>\<open>POST /prompt\<close>: the transport raises a \<^verbatim>\<open>RequestException\<close>, or a
  response arrives with a status code and a JSON object, of which the clients read only
  \<^verbatim>\<open>response.json()["prompt_id"]\<close> (\<open>None\<close>: the key is absent).
\<close>

datatype post_outcome =
    Post_raises string
  | Post_response int "string option"

text \<open>
  A reply to \<^verbatim>\<open>GET /history/<prompt_id>\<close>. Of the JSON object the clients read
  \<^verbatim>\<open>history[prompt_id]\<close> (\<open>None\<close>: \<^verbatim>\<open>prompt_id not in history\<close>) and in it
  \<^verbatim>\<open>.get("outputs", {})\<close>: the nodes in order, each with the list under its
  \<^verbatim>\<open>"images"\<close> key (\<open>None\<close>: no such key). An image is represented by its
  \<^verbatim>\<open>"filename"\<close> entry (\<open>None\<close>: no such key).
\<close>

type_synonym image_info = "string option"
type_synonym node_output = "image_info list option"
type_synonym outputs = "(string \<times> node_output) list"

datatype get_outcome =
    Get_raises string
  | Get_response int "outputs option"

record service =
  post_reply :: "nat \<Rightarrow> post_outcome"
  post_time :: "nat \<Rightarrow> nat"
  get_reply :: "nat \<Rightarrow> get_outcome"
  get_time :: "nat \<Rightarrow> nat"

text \<open>
  What one job has done so far: the clock, the numbers of POSTs and GETs it has sent and
  the arguments of its \<^verbatim>\<open>time.sleep\<close> calls, oldest first.
\<close>

record world =
  clock :: int
  posts :: nat
  gets :: nat
  slept :: "int list"

definition advance :: "int \<Rightarrow> world \<Rightarrow> world" where
  "advance d w = w\<lparr>clock := clock w + d, slept := slept w @ [d]\<rparr>"

text \<open>\<^verbatim>\<open>time.sleep(d)\<close> raises \<^verbatim>\<open>ValueError\<close> on a negative argument.\<close>

definition sleep :: "int \<Rightarrow> world \<Rightarrow> py_exception + world" where
  "sleep d w =
     (if d < 0 then Inl (ValueError ''sleep length must be non-negative'')
      else Inr (advance d w))"

definition do_post :: "service \<Rightarrow> world \<Rightarrow> post_outcome \<times> world" where
  "do_post s w =
     (post_reply s (posts w),
      w\<lparr>clock := clock w + int (post_time s (posts w)), posts := Suc (posts w)\<rparr>)"

definition do_get :: "service \<Rightarrow> world \<Rightarrow> get_outcome \<times> world" where
  "do_get s w =
     (get_reply s (gets w),
      w\<lparr>clock := clock w + int (get_time s (gets w)), gets := Suc (gets w)\<rparr>)"

section \<open>api_integration.py: QwenImageAPI\<close>

record api_client =
  base_url :: string
  timeout :: int
  max_retries :: int
  retry_delay :: int

text \<open>The defaults of \<^verbatim>\<open>QwenImageAPI.__init__\<close>; \<^verbatim>\<open>retry_delay=1.0\<close> seconds.\<close>

definition default_api :: api_client where
  "default_api =
     \<lparr>base_url = ''http://localhost:8188'', timeout = 60, max_retries = 3,
      retry_delay = 1000\<rparr>"

text \<open>
  The argument of both \<^verbatim>\<open>time.sleep(self.retry_delay * (attempt + 1))\<close> calls of
  \<^verbatim>\<open>submit_generation\<close>, \<open>attempt\<close> counting from 0. The loop evaluates it
  for the attempts below \<open>max_retries\<close> only.
\<close>

definition backoff_delay :: "api_client \<Rightarrow> nat \<Rightarrow> int" where
  "backoff_delay api attempt = retry_delay api * (int attempt + 1)"

text \<open>
  \<^verbatim>\<open>for attempt in range(self.max_retries)\<close>: \<open>attempt\<close> is the loop variable, the
  second number the iterations still to run. The result is the function's return value
  (\<open>Inr None\<close> for \<^verbatim>\<open>return None\<close>) or the exception that leaves it.
\<close>

fun submit_attempts ::
  "api_client \<Rightarrow> service \<Rightarrow> nat \<Rightarrow> nat \<Rightarrow> world \<Rightarrow> (py_exception + string option) \<times> world"
where
  "submit_attempts api s attempt 0 w = (Inr None, w)"
| "submit_attempts api s attempt (Suc n) w =
     (case do_post s w of
        (Post_response status body, w1) \<Rightarrow>
          if status = 200 then
            (case body of
               None \<Rightarrow> (Inl (KeyError ''prompt_id''), w1)
             | Some prompt_id \<Rightarrow> (Inr (Some prompt_id), w1))
          else if status = 429 then
            (case sleep (backoff_delay api attempt) w1 of
               Inl ex \<Rightarrow> (Inl ex, w1)
             | Inr w2 \<Rightarrow> submit_attempts api s (Suc attempt) n w2)
          else submit_attempts api s (Suc attempt) n w1
      | (Post_raises msg, w1) \<Rightarrow>
          if int attempt < max_retries api - 1 then
            (case sleep (backoff_delay api attempt) w1 of
               Inl ex \<Rightarrow> (Inl ex, w1)
             | Inr w2 \<Rightarrow> submit_attempts api s (Suc attempt) n w2)
          else submit_attempts api s (Suc attempt) n w1)"

definition submit_generation ::
  "api_client \<Rightarrow> service \<Rightarrow> world \<Rightarrow> (py_exception + string option) \<times> world"
where
  "submit_generation api s w = submit_attempts api s 0 (nat (max_retries api)) w"

subsection \<open>Objects, references and \<^verbatim>\<open>json.loads(json.dumps(...))\<close>\<close>

text \<open>
  A workflow is a Python object graph: dictionaries and lists are objects on a heap,
  reached through references, so that a mutation through one reference is seen through
  every other. An address is an index into the heap; allocation appends. Dictionaries
  keep their insertion order and have string keys, as everything read from a JSON file.
\<close>

datatype pyval =
    VNone
  | VBool bool
  | VInt int
  | VFloat real
  | VStr string
  | VRef nat

datatype pyobj =
    PList "pyval list"
  | PDict "(string \<times> pyval) list"

type_synonym heap = "pyobj list"

text \<open>The text \<^verbatim>\<open>json.dumps\<close> writes, as the JSON value it denotes.\<close>

datatype json =
    JNull
  | JBool bool
  | JInt int
  | JFloat real
  | JStr string
  | JArray "json list"
  | JObject "(string \<times> json) list"

text \<open>The first exception of a sequence of results, or all the values.\<close>

fun sequence :: "('e + 'a) list \<Rightarrow> 'e + 'a list" where
  "sequence [] = Inr []"
| "sequence (Inl e # rs) = Inl e"
| "sequence (Inr x # rs) = (case sequence rs of Inl e \<Rightarrow> Inl e | Inr xs \<Rightarrow> Inr (x # xs))"

text \<open>
  \<^verbatim>\<open>json.dumps\<close> walks the object graph; \<open>path\<close> holds the containers being
  written (its \<^verbatim>\<open>markers\<close>), and meeting one of them again raises
  \<^verbatim>\<open>ValueError("Circular reference detected")\<close>. A reference outside the heap does not
  occur in a Python program; the model gives it a \<^verbatim>\<open>ValueError\<close> too.
\<close>

function dumps :: "heap \<Rightarrow> nat list \<Rightarrow> pyval \<Rightarrow> py_exception + json" where
  "dumps h path VNone = Inr JNull"
| "dumps h path (VBool b) = Inr (JBool b)"
| "dumps h path (VInt i) = Inr (JInt i)"
| "dumps h path (VFloat x) = Inr (JFloat x)"
| "dumps h path (VStr s) = Inr (JStr s)"
| "dumps h path (VRef a) =
     (if a \<in> set path then Inl (ValueError ''Circular reference detected'')
      else if length h \<le> a then Inl (ValueError ''dangling reference'')
      else
        (case h ! a of
           PList vs \<Rightarrow>
             (case sequence (map (\<lambda>v. dumps h (a # path) v) vs) of
                Inl e \<Rightarrow> Inl e
              | Inr xs \<Rightarrow> Inr (JArray xs))
         | PDict kvs \<Rightarrow>
             (case sequence (map (\<lambda>kv. dumps h (a # path) (snd kv)) kvs) of
                Inl e \<Rightarrow> Inl e
              | Inr xs \<Rightarrow> Inr (JObject (zip (map fst kvs) xs)))))"
  by pat_completeness auto
termination
proof (relation "measure (\<lambda>(h, path, v). card ({..<length h} - set path))")
  show "wf (measure (\<lambda>(h, path, v). card ({..<length h} - set path)))"
    by simp
next
  fix h :: heap and path :: "nat list" and a :: nat and vs :: "pyval list" and v :: pyval
  assume "a \<notin> set path" and "\<not> length h \<le> a"
  then have "a \<in> {..<length h} - set path"
    by simp
  then have "card ({..<length h} - set path - {a}) < card ({..<length h} - set path)"
    by (intro card_Diff1_less) simp_all
  moreover have "{..<length h} - set (a # path) = {..<length h} - set path - {a}"
    by auto
  ultimately show "((h, a # path, v), (h, path, VRef a))
      \<in> measure (\<lambda>(h, path, v). card ({..<length h} - set path))"
    by simp
next
  fix h :: heap and path :: "nat list" and a :: nat
    and kvs :: "(string \<times> pyval) list" and kv :: "string \<times> pyval"
  assume "a \<notin> set path" and "\<not> length h \<le> a"
  then have "a \<in> {..<length h} - set path"
    by simp
  then have "card ({..<length h} - set path - {a}) < card ({..<length h} - set path)"
    by (intro card_Diff1_less) simp_all
  moreover have "{..<length h} - set (a # path) = {..<length h} - set path - {a}"
    by auto
  ultimately show "((h, a # path, snd kv), (h, path, VRef a))
      \<in> measure (\<lambda>(h, path, v). card ({..<length h} - set path))"
    by simp
qed

text \<open>A dictionary built from pairs in order: a repeated key keeps its place, the last value wins.\<close>

definition dict_of_pairs :: "(string \<times> 'v) list \<Rightarrow> (string \<times> 'v) list" where
  "dict_of_pairs kvs = fold (\<lambda>kv. AList.update (fst kv) (snd kv)) kvs []"

text \<open>
  \<^verbatim>\<open>json.loads\<close> builds new objects: every list and dictionary of the text is
  allocated at a new address, the members before their container.
\<close>

fun loads :: "json \<Rightarrow> heap \<Rightarrow> pyval \<times> heap"
  and loads_list :: "json list \<Rightarrow> heap \<Rightarrow> pyval list \<times> heap"
  and loads_fields :: "(string \<times> json) list \<Rightarrow> heap \<Rightarrow> (string \<times> pyval) list \<times> heap"
where
  "loads JNull h = (VNone, h)"
| "loads (JBool b) h = (VBool b, h)"
| "loads (JInt i) h = (VInt i, h)"
| "loads (JFloat x) h = (VFloat x, h)"
| "loads (JStr s) h = (VStr s, h)"
| "loads (JArray xs) h =
     (case loads_list xs h of (vs, h1) \<Rightarrow> (VRef (length h1), h1 @ [PList vs]))"
| "loads (JObject kxs) h =
     (case loads_fields kxs h of
        (kvs, h1) \<Rightarrow> (VRef (length h1), h1 @ [PDict (dict_of_pairs kvs)]))"
| "loads_list [] h = ([], h)"
| "loads_list (x # xs) h =
     (case loads x h of (v, h1) \<Rightarrow>
        (case loads_list xs h1 of (vs, h2) \<Rightarrow> (v # vs, h2)))"
| "loads_fields [] h = ([], h)"
| "loads_fields ((k, x) # kxs) h =
     (case loads x h of (v, h1) \<Rightarrow>
        (case loads_fields kxs h1 of (kvs, h2) \<Rightarrow> ((k, v) # kvs, h2)))"

text \<open>The object at an address; \<open>None\<close> for a reference outside the heap.\<close>

definition heap_get :: "heap \<Rightarrow> nat \<Rightarrow> pyobj option" where
  "heap_get h a = (if a < length h then Some (h ! a) else None)"

text \<open>\<^verbatim>\<open>type(x).__name__\<close>, which the messages of the exceptions below quote.\<close>

definition type_name :: "heap \<Rightarrow> pyval \<Rightarrow> string" where
  "type_name h x =
     (case x of
        VNone \<Rightarrow> ''NoneType''
      | VBool b \<Rightarrow> ''bool''
      | VInt i \<Rightarrow> ''int''
      | VFloat r \<Rightarrow> ''float''
      | VStr s \<Rightarrow> ''str''
      | VRef a \<Rightarrow>
          (case heap_get h a of
             Some (PDict kvs) \<Rightarrow> ''dict''
           | Some (PList vs) \<Rightarrow> ''list''
           | None \<Rightarrow> ''object''))"

text \<open>\<^verbatim>\<open>x[k]\<close> for a string \<open>k\<close>.\<close>

definition getitem :: "heap \<Rightarrow> pyval \<Rightarrow> string \<Rightarrow> py_exception + pyval" where
  "getitem h x k =
     (case x of
        VRef a \<Rightarrow>
          (case heap_get h a of
             Some (PDict kvs) \<Rightarrow>
               (case map_of kvs k of None \<Rightarrow> Inl (KeyError k) | Some v \<Rightarrow> Inr v)
           | Some (PList vs) \<Rightarrow>
               Inl (TypeError ''list indices must be integers or slices, not str'')
           | None \<Rightarrow> Inl (ValueError ''dangling reference''))
      | VStr s \<Rightarrow> Inl (TypeError (''string indices must be integers, not '' @ quoted ''str''))
      | _ \<Rightarrow> Inl (TypeError (quoted (type_name h x) @ '' object is not subscriptable'')))"

text \<open>\<^verbatim>\<open>x[k] = v\<close> for a string \<open>k\<close>: the dictionary at the address is changed in place.\<close>

definition setitem :: "heap \<Rightarrow> pyval \<Rightarrow> string \<Rightarrow> pyval \<Rightarrow> py_exception + heap" where
  "setitem h x k v =
     (case x of
        VRef a \<Rightarrow>
          (case heap_get h a of
             Some (PDict kvs) \<Rightarrow> Inr (h[a := PDict (AList.update k v kvs)])
           | Some (PList vs) \<Rightarrow>
               Inl (TypeError ''list indices must be integers or slices, not str'')
           | None \<Rightarrow> Inl (ValueError ''dangling reference''))
      | _ \<Rightarrow>
          Inl (TypeError (quoted (type_name h x) @ '' object does not support item assignment'')))"

text \<open>\<^verbatim>\<open>x.update({k1: v1, ...})\<close>: only a dictionary has the method.\<close>

definition dict_update :: "heap \<Rightarrow> pyval \<Rightarrow> (string \<times> pyval) list \<Rightarrow> py_exception + heap" where
  "dict_update h x items =
     (case x of
        VRef a \<Rightarrow>
          (case heap_get h a of
             Some (PDict kvs) \<Rightarrow>
               Inr (h[a := PDict (fold (\<lambda>kv. AList.update (fst kv) (snd kv)) items kvs)])
           | Some (PList vs) \<Rightarrow>
               Inl (AttributeError (quoted ''list'' @ '' object has no attribute '' @ quoted ''update''))
           | None \<Rightarrow> Inl (ValueError ''dangling reference''))
      | _ \<Rightarrow>
          Inl (AttributeError
                 (quoted (type_name h x) @ '' object has no attribute '' @ quoted ''update'')))"

fun starts_with :: "string \<Rightarrow> string \<Rightarrow> bool" where
  "starts_with [] ys = True"
| "starts_with (x # xs) [] = False"
| "starts_with (x # xs) (y # ys) = (x = y \<and> starts_with xs ys)"

fun is_substring :: "string \<Rightarrow> string \<Rightarrow> bool" where
  "is_substring xs [] = (xs = [])"
| "is_substring xs (y # ys) = (starts_with xs (y # ys) \<or> is_substring xs ys)"

text \<open>\<^verbatim>\<open>k in x\<close> for a string \<open>k\<close>.\<close>

definition contains :: "heap \<Rightarrow> string \<Rightarrow> pyval \<Rightarrow> py_exception + bool" where
  "contains h k x =
     (case x of
        VRef a \<Rightarrow>
          (case heap_get h a of
             Some (PDict kvs) \<Rightarrow> Inr (k \<in> set (map fst kvs))
           | Some (PList vs) \<Rightarrow> Inr (VStr k \<in> set vs)
           | None \<Rightarrow> Inl (ValueError ''dangling reference''))
      | VStr s \<Rightarrow> Inr (is_substring k s)
      | _ \<Rightarrow> Inl (TypeError (''argument of type '' @ quoted (type_name h x) @ '' is not iterable'')))"

text \<open>The truth value of an object, as \<^verbatim>\<open>if not workflow\<close> tests it.\<close>

definition truthy :: "heap \<Rightarrow> pyval \<Rightarrow> bool" where
  "truthy h x =
     (case x of
        VNone \<Rightarrow> False
      | VBool b \<Rightarrow> b
      | VInt i \<Rightarrow> i \<noteq> 0
      | VFloat r \<Rightarrow> r \<noteq> 0
      | VStr s \<Rightarrow> s \<noteq> []
      | VRef a \<Rightarrow>
          (case heap_get h a of
             Some (PDict kvs) \<Rightarrow> kvs \<noteq> []
           | Some (PList vs) \<Rightarrow> vs \<noteq> []
           | None \<Rightarrow> False))"

text \<open>What reading and parsing the workflow file gives.\<close>

datatype file_read =
    File_not_found
  | File_bad_json
  | File_json json

text \<open>
  \<^verbatim>\<open>QwenImageAPI.load_workflow\<close>: every exception, also the \<^verbatim>\<open>ValueError\<close> of
  the validation and a \<^verbatim>\<open>TypeError\<close> of a test it makes, ends in \<^verbatim>\<open>return None\<close>.
\<close>

definition load_workflow :: "file_read \<Rightarrow> heap \<Rightarrow> pyval option \<times> heap" where
  "load_workflow file h =
     (case file of
        File_not_found \<Rightarrow> (None, h)
      | File_bad_json \<Rightarrow> (None, h)
      | File_json t \<Rightarrow>
          (case loads t h of
             (workflow, h1) \<Rightarrow>
               (case contains h1 ''input'' workflow of
                  Inl e \<Rightarrow> (None, h1)
                | Inr False \<Rightarrow> (None, h1)
                | Inr True \<Rightarrow>
                    (case getitem h1 workflow ''input'' of
                       Inl e \<Rightarrow> (None, h1)
                     | Inr inp \<Rightarrow>
                         (case contains h1 ''workflow'' inp of
                            Inl e \<Rightarrow> (None, h1)
                          | Inr False \<Rightarrow> (None, h1)
                          | Inr True \<Rightarrow> (Some workflow, h1))))))"

record generation_request =
  prompt :: string
  seed :: "int option"
  width :: int
  height :: int
  steps :: int
  cfg_scale :: real
  batch_size :: int

text \<open>\<^verbatim>\<open>workflow["input"]["workflow"][node]["inputs"]\<close>.\<close>

definition node_inputs :: "heap \<Rightarrow> pyval \<Rightarrow> string \<Rightarrow> py_exception + pyval" where
  "node_inputs h workflow node =
     (case getitem h workflow ''input'' of
        Inl e \<Rightarrow> Inl e
      | Inr a \<Rightarrow>
          (case getitem h a ''workflow'' of
             Inl e \<Rightarrow> Inl e
           | Inr b \<Rightarrow>
               (case getitem h b node of
                  Inl e \<Rightarrow> Inl e
                | Inr c \<Rightarrow> getitem h c ''inputs'')))"

text \<open>\<^verbatim>\<open>workflow["input"]["workflow"][node]["inputs"][key] = v\<close>.\<close>

definition set_node_input ::
  "heap \<Rightarrow> pyval \<Rightarrow> string \<Rightarrow> string \<Rightarrow> pyval \<Rightarrow> py_exception + heap"
where
  "set_node_input h workflow node key v =
     (case node_inputs h workflow node of
        Inl e \<Rightarrow> Inl e
      | Inr inputs \<Rightarrow> setitem h inputs key v)"

text \<open>\<^verbatim>\<open>workflow["input"]["workflow"][node]["inputs"].update({...})\<close>.\<close>

definition update_node_inputs ::
  "heap \<Rightarrow> pyval \<Rightarrow> string \<Rightarrow> (string \<times> pyval) list \<Rightarrow> py_exception + heap"
where
  "update_node_inputs h workflow node items =
     (case node_inputs h workflow node of
        Inl e \<Rightarrow> Inl e
      | Inr inputs \<Rightarrow> dict_update h inputs items)"

text \<open>
  \<^verbatim>\<open>request.seed if request.seed else int(time.time() * 1000) % 2**32\<close>; \<open>now\<close> is
  the clock in milliseconds. \<^verbatim>\<open>None\<close> and \<^verbatim>\<open>0\<close> are both false.
\<close>

definition chosen_seed :: "int \<Rightarrow> generation_request \<Rightarrow> int" where
  "chosen_seed now request =
     (case seed request of
        None \<Rightarrow> now mod 2 ^ 32
      | Some n \<Rightarrow> if n \<noteq> 0 then n else now mod 2 ^ 32)"

text \<open>
  \<^verbatim>\<open>prepare_workflow\<close>: the value returned (a reference to the copy) or the exception
  raised, and the heap afterwards.
\<close>

definition prepare_workflow ::
  "int \<Rightarrow> heap \<Rightarrow> pyval \<Rightarrow> generation_request \<Rightarrow> (py_exception + pyval) \<times> heap"
where
  "prepare_workflow now h base_workflow request =
     (case dumps h [] base_workflow of
        Inl e \<Rightarrow> (Inl e, h)
      | Inr text \<Rightarrow>
          (case loads text h of
             (workflow, h1) \<Rightarrow>
               (case set_node_input h1 workflow ''6'' ''text'' (VStr (prompt request)) of
                  Inl e \<Rightarrow> (Inl e, h1)
                | Inr h2 \<Rightarrow>
                    (case update_node_inputs h2 workflow ''3''
                            [(''seed'', VInt (chosen_seed now request)),
                             (''steps'', VInt (steps request)),
                             (''cfg'', VFloat (cfg_scale request))] of
                       Inl e \<Rightarrow> (Inl e, h2)
                     | Inr h3 \<Rightarrow>
                         (case update_node_inputs h3 workflow ''58''
                                 [(''width'', VInt (width request)),
                                  (''height'', VInt (height request)),
                                  (''batch_size'', VInt (batch_size request))] of
                            Inl e \<Rightarrow> (Inl e, h3)
                          | Inr h4 \<Rightarrow> (Inr workflow, h4))))))"

record generation_result =
  success :: bool
  prompt_id :: "string option"
  generation_time :: "int option"
  images :: "image_info list option"
  error :: "string option"

text \<open>The result after the polling loop of \<^verbatim>\<open>wait_for_completion\<close>.\<close>

definition timeout_result :: "api_client \<Rightarrow> string \<Rightarrow> generation_result" where
  "timeout_result api pid =
     \<lparr>success = False, prompt_id = Some pid, generation_time = Some (timeout api * 1000),
      images = None, error = Some ''timeout''\<rparr>"

text \<open>\<^verbatim>\<open>images.extend(node_output["images"])\<close> over the nodes that have the key.\<close>

definition collect_images :: "outputs \<Rightarrow> image_info list" where
  "collect_images outs =
     concat (map (\<lambda>node. case snd node of None \<Rightarrow> [] | Some imgs \<Rightarrow> imgs) outs)"

text \<open>
  The loop of \<^verbatim>\<open>QwenImageAPI.wait_for_completion\<close>; \<open>started\<close> is its
  \<^verbatim>\<open>start_time\<close>. A \<^verbatim>\<open>RequestException\<close> is the \<^verbatim>\<open>break\<close>.
\<close>

function wait_loop ::
  "api_client \<Rightarrow> service \<Rightarrow> string \<Rightarrow> int \<Rightarrow> world \<Rightarrow> generation_result \<times> world"
where
  "wait_loop api s pid started w =
     (if clock w - started < timeout api * 1000 then
        (case do_get s w of
           (Get_raises msg, w1) \<Rightarrow> (timeout_result api pid, w1)
         | (Get_response status history, w1) \<Rightarrow>
             if status = 200 then
               (case history of
                  Some outs \<Rightarrow>
                    (\<lparr>success = True, prompt_id = Some pid,
                      generation_time = Some (clock w1 - started),
                      images = Some (collect_images outs), error = None\<rparr>, w1)
                | None \<Rightarrow> wait_loop api s pid started (advance 1000 w1))
             else wait_loop api s pid started (advance 1000 w1))
      else (timeout_result api pid, w))"
  by pat_completeness auto
termination
  by (relation "measure (\<lambda>(api, s, pid, started, w). nat (timeout api * 1000 - (clock w - started)))")
    (auto simp: do_get_def advance_def)

declare wait_loop.simps [simp del]

definition wait_for_completion ::
  "api_client \<Rightarrow> service \<Rightarrow> string \<Rightarrow> world \<Rightarrow> generation_result \<times> world"
where
  "wait_for_completion api s pid w = wait_loop api s pid (clock w) w"

text \<open>
  \<^verbatim>\<open>QwenImageAPI.generate_image\<close>. \<^verbatim>\<open>if not workflow\<close> and
  \<^verbatim>\<open>if not prompt_id\<close> test the truth value: an empty dictionary and an empty string
  are refused as \<^verbatim>\<open>None\<close> is.
\<close>

definition generate_image ::
  "api_client \<Rightarrow> service \<Rightarrow> file_read \<Rightarrow> generation_request \<Rightarrow> heap \<Rightarrow> world \<Rightarrow>
     (py_exception + generation_result) \<times> heap \<times> world"
where
  "generate_image api s file request h w =
     (case load_workflow file h of
        (None, h1) \<Rightarrow>
          (Inr \<lparr>success = False, prompt_id = None, generation_time = None, images = None,
                 error = Some ''Failed to load workflow''\<rparr>, h1, w)
      | (Some workflow, h1) \<Rightarrow>
          if \<not> truthy h1 workflow then
            (Inr \<lparr>success = False, prompt_id = None, generation_time = None, images = None,
                   error = Some ''Failed to load workflow''\<rparr>, h1, w)
          else
            (case prepare_workflow (clock w) h1 workflow request of
               (Inl e, h2) \<Rightarrow> (Inl e, h2, w)
             | (Inr prepared_workflow, h2) \<Rightarrow>
                 (case submit_generation api s w of
                    (Inl e, w1) \<Rightarrow> (Inl e, h2, w1)
                  | (Inr None, w1) \<Rightarrow>
                      (Inr \<lparr>success = False, prompt_id = None, generation_time = None,
                             images = None,
                             error = Some ''Failed to submit generation request''\<rparr>, h2, w1)
                  | (Inr (Some pid), w1) \<Rightarrow>
                      if pid = [] then
                        (Inr \<lparr>success = False, prompt_id = None, generation_time = None,
                               images = None,
                               error = Some ''Failed to submit generation request''\<rparr>, h2, w1)
                      else
                        (case wait_for_completion api s pid w1 of
                           (r, w2) \<Rightarrow> (Inr r, h2, w2)))))"






section \<open>quick_start.py: QwenImageGenerator\<close>

record quick_generator =
  quick_base_url :: string
  quick_timeout :: int

text \<open>The dictionary \<^verbatim>\<open>wait_for_completion\<close> returns; an absent key is \<open>None\<close>.\<close>

record quick_result =
  quick_prompt_id :: string
  quick_images :: "image_info list option"
  quick_generation_time :: int
  quick_success :: bool
  quick_error :: "string option"

definition quick_timeout_result :: "quick_generator \<Rightarrow> string \<Rightarrow> quick_result" where
  "quick_timeout_result g pid =
     \<lparr>quick_prompt_id = pid, quick_images = None,
      quick_generation_time = quick_timeout g * 1000, quick_success = False,
      quick_error = Some ''timeout''\<rparr>"

text \<open>The \<^verbatim>\<open>"images"\<close> of the first node that has the key with a non-empty list.\<close>

fun first_images :: "outputs \<Rightarrow> image_info list option" where
  "first_images [] = None"
| "first_images ((node_id, node_output) # rest) =
     (case node_output of
        None \<Rightarrow> first_images rest
      | Some imgs \<Rightarrow> if imgs \<noteq> [] then Some imgs else first_images rest)"

function quick_wait_loop ::
  "quick_generator \<Rightarrow> service \<Rightarrow> string \<Rightarrow> int \<Rightarrow> world \<Rightarrow> quick_result \<times> world"
where
  "quick_wait_loop g s pid started w =
     (if clock w - started < quick_timeout g * 1000 then
        (case do_get s w of
           (Get_raises msg, w1) \<Rightarrow> (quick_timeout_result g pid, w1)
         | (Get_response status history, w1) \<Rightarrow>
             if status = 200 then
               (case history of
                  Some outs \<Rightarrow>
                    (case first_images outs of
                       Some imgs \<Rightarrow>
                         (\<lparr>quick_prompt_id = pid, quick_images = Some imgs,
                           quick_generation_time = clock w1 - started,
                           quick_success = True, quick_error = None\<rparr>, w1)
                     | None \<Rightarrow> quick_wait_loop g s pid started (advance 1000 w1))
                | None \<Rightarrow> quick_wait_loop g s pid started (advance 1000 w1))
             else quick_wait_loop g s pid started (advance 1000 w1))
      else (quick_timeout_result g pid, w))"
  by pat_completeness auto
termination
  by (relation "measure (\<lambda>(g, s, pid, started, w). nat (quick_timeout g * 1000 - (clock w - started)))")
    (auto simp: do_get_def advance_def)

declare quick_wait_loop.simps [simp del]

text \<open>\<^verbatim>\<open>QwenImageGenerator.wait_for_completion\<close>.\<close>

definition quick_wait_for_completion ::
  "quick_generator \<Rightarrow> service \<Rightarrow> string \<Rightarrow> world \<Rightarrow> quick_result \<times> world"
where
  "quick_wait_for_completion g s pid w = quick_wait_loop g s pid (clock w) w"

section \<open>batch_generation.py: BatchGenerator\<close>

record batch_config =
  prompts_file :: string
  output_dir :: string
  max_workers :: int
  batch_timeout :: int
  batch_base_url :: string
  save_metadata :: bool
  retry_failed :: bool

text \<open>The \<^verbatim>\<open>result\<close> dictionary of \<^verbatim>\<open>generate_single\<close>.\<close>

record job_result =
  job_index :: nat
  job_prompt :: string
  job_seed :: "int option"
  job_success :: bool
  job_filename :: "string option"
  job_generation_time :: int
  job_error :: "string option"
  job_prompt_id :: "string option"

fun str_nat :: "nat \<Rightarrow> string" where
  "str_nat n =
     (if n < 10 then [''0123456789'' ! n]
      else str_nat (n div 10) @ [''0123456789'' ! (n mod 10)])"

declare str_nat.simps [simp del]

definition str_int :: "int \<Rightarrow> string" where
  "str_int i = (if i < 0 then CHR ''-'' # str_nat (nat (- i)) else str_nat (nat i))"

text \<open>
  In the polling loop of \<^verbatim>\<open>generate_single\<close>: the first node whose
  \<^verbatim>\<open>"images"\<close> list is not empty decides; \<^verbatim>\<open>images[0]["filename"]\<close> is
  returned or raises \<^verbatim>\<open>KeyError\<close>. \<open>None\<close>: no node has an image.
\<close>

fun first_filename :: "outputs \<Rightarrow> (py_exception + string) option" where
  "first_filename [] = None"
| "first_filename ((node_id, node_output) # rest) =
     (case node_output of
        None \<Rightarrow> first_filename rest
      | Some [] \<Rightarrow> first_filename rest
      | Some (image_info # others) \<Rightarrow>
          (case image_info of
             None \<Rightarrow> Some (Inl (KeyError ''filename''))
           | Some filename \<Rightarrow> Some (Inr filename)))"

text \<open>
  The \<^verbatim>\<open>while\<close> loop of \<^verbatim>\<open>generate_single\<close>: \<open>Inr (Some filename)\<close> when an
  image is there, \<open>Inr None\<close> when the loop ends, \<open>Inl e\<close> when \<open>e\<close> is raised.
\<close>

function poll_history ::
  "batch_config \<Rightarrow> service \<Rightarrow> int \<Rightarrow> world \<Rightarrow> (py_exception + string option) \<times> world"
where
  "poll_history cfg s generation_start w =
     (if clock w - generation_start < batch_timeout cfg * 1000 then
        (case do_get s w of
           (Get_raises msg, w1) \<Rightarrow> (Inl (RequestException msg), w1)
         | (Get_response status history, w1) \<Rightarrow>
             if status = 200 then
               (case history of
                  Some outs \<Rightarrow>
                    (case first_filename outs of
                       Some (Inl e) \<Rightarrow> (Inl e, w1)
                     | Some (Inr filename) \<Rightarrow> (Inr (Some filename), w1)
                     | None \<Rightarrow> poll_history cfg s generation_start (advance 1000 w1))
                | None \<Rightarrow> poll_history cfg s generation_start (advance 1000 w1))
             else poll_history cfg s generation_start (advance 1000 w1))
      else (Inr None, w))"
  by pat_completeness auto
termination
  by (relation "measure (\<lambda>(cfg, s, generation_start, w).
        nat (batch_timeout cfg * 1000 - (clock w - generation_start)))")
    (auto simp: do_get_def advance_def)

declare poll_history.simps [simp del]

text \<open>\<^verbatim>\<open>BatchGenerator.load_workflow\<close>: the parsed file as new objects, or \<^verbatim>\<open>None\<close>.\<close>

definition batch_load_workflow :: "file_read \<Rightarrow> heap \<Rightarrow> pyval option \<times> heap" where
  "batch_load_workflow file h =
     (case file of
        File_not_found \<Rightarrow> (None, h)
      | File_bad_json \<Rightarrow> (None, h)
      | File_json t \<Rightarrow> (case loads t h of (workflow, h1) \<Rightarrow> (Some workflow, h1)))"

definition initial_result :: "string \<times> int option \<Rightarrow> nat \<Rightarrow> job_result" where
  "initial_result prompt_data index =
     \<lparr>job_index = index, job_prompt = fst prompt_data, job_seed = snd prompt_data,
      job_success = False, job_filename = None, job_generation_time = 0,
      job_error = None, job_prompt_id = None\<rparr>"

text \<open>
  The \<^verbatim>\<open>try\<close> block of \<^verbatim>\<open>generate_single\<close>: the dictionary it returns, or the
  exception that leaves it. \<^verbatim>\<open>if seed\<close> is false for \<^verbatim>\<open>None\<close> and for 0.
\<close>

definition generate_single_try ::
  "batch_config \<Rightarrow> service \<Rightarrow> file_read \<Rightarrow> string \<times> int option \<Rightarrow> nat \<Rightarrow> world \<Rightarrow>
     (py_exception + job_result) \<times> world"
where
  "generate_single_try cfg s file prompt_data index w =
     (let result = initial_result prompt_data index; started = clock w in
      case batch_load_workflow file [] of
        (None, h1) \<Rightarrow> (Inr (result\<lparr>job_error := Some ''Failed to load workflow''\<rparr>), w)
      | (Some workflow, h1) \<Rightarrow>
          if \<not> truthy h1 workflow then
            (Inr (result\<lparr>job_error := Some ''Failed to load workflow''\<rparr>), w)
          else
            (case set_node_input h1 workflow ''6'' ''text'' (VStr (fst prompt_data)) of
               Inl e \<Rightarrow> (Inl e, w)
             | Inr h2 \<Rightarrow>
                 (case (case snd prompt_data of
                          None \<Rightarrow> Inr h2
                        | Some n \<Rightarrow>
                            if n \<noteq> 0 then set_node_input h2 workflow ''3'' ''seed'' (VInt n)
                            else Inr h2) of
                    Inl e \<Rightarrow> (Inl e, w)
                  | Inr h3 \<Rightarrow>
                      (case do_post s w of
                         (Post_raises msg, w1) \<Rightarrow> (Inl (RequestException msg), w1)
                       | (Post_response status body, w1) \<Rightarrow>
                           if status \<noteq> 200 then
                             (Inr (result\<lparr>job_error :=
                                     Some (''Submit failed: '' @ str_int status)\<rparr>), w1)
                           else
                             (case body of
                                None \<Rightarrow> (Inl (KeyError ''prompt_id''), w1)
                              | Some pid \<Rightarrow>
                                  (case poll_history cfg s (clock w1) w1 of
                                     (Inl e, w2) \<Rightarrow> (Inl e, w2)
                                   | (Inr (Some filename), w2) \<Rightarrow>
                                       (Inr (result\<lparr>job_success := True,
                                              job_filename := Some filename,
                                              job_generation_time := clock w2 - started,
                                              job_prompt_id := Some pid\<rparr>), w2)
                                   | (Inr None, w2) \<Rightarrow>
                                       (Inr (result\<lparr>job_error :=
                                               Some ''Generation timeout''\<rparr>), w2)))))))"

text \<open>
  \<^verbatim>\<open>generate_single\<close>: \<^verbatim>\<open>except Exception as e\<close> stores \<^verbatim>\<open>str(e)\<close> in the
  dictionary, which is returned in every case.
\<close>

definition generate_single ::
  "batch_config \<Rightarrow> service \<Rightarrow> file_read \<Rightarrow> string \<times> int option \<Rightarrow> nat \<Rightarrow> world \<Rightarrow>
     job_result \<times> world"
where
  "generate_single cfg s file prompt_data index w =
     (case generate_single_try cfg s file prompt_data index w of
        (Inl e, w1) \<Rightarrow>
          ((initial_result prompt_data index)\<lparr>job_error := Some (exception_str e)\<rparr>, w1)
      | (Inr result, w1) \<Rightarrow> (result, w1))"


record batch_stats =
  total :: int
  successful :: int
  failed :: int
  total_time :: int
  start_time :: "int option"
  end_time :: "int option"

record batch_generator =
  config :: batch_config
  results :: "job_result list"
  stats :: batch_stats

text \<open>\<^verbatim>\<open>BatchGenerator.__init__\<close>.\<close>

definition new_generator :: "batch_config \<Rightarrow> batch_generator" where
  "new_generator cfg =
     \<lparr>config = cfg, results = [],
      stats = \<lparr>total = 0, successful = 0, failed = 0, total_time = 0,
               start_time = None, end_time = None\<rparr>\<rparr>"

text \<open>
  The loop over \<^verbatim>\<open>as_completed(future_to_index)\<close>: \<open>future i\<close> is what
  \<^verbatim>\<open>future.result()\<close> gives for the task of index \<open>i\<close> (\<open>Inl e\<close>: it raises \<open>e\<close>),
  the list holds the indices in the order in which the tasks complete.
\<close>

fun collect ::
  "(nat \<Rightarrow> py_exception + job_result) \<Rightarrow> nat list \<Rightarrow> batch_generator \<Rightarrow> batch_generator"
where
  "collect future [] g = g"
| "collect future (index # rest) g =
     (case future index of
        Inr result \<Rightarrow>
          collect future rest
            (g\<lparr>results := results g @ [result],
               stats :=
                 (if job_success result
                  then (stats g)\<lparr>successful := successful (stats g) + 1\<rparr>
                  else (stats g)\<lparr>failed := failed (stats g) + 1\<rparr>)\<rparr>)
      | Inl e \<Rightarrow>
          collect future rest (g\<lparr>stats := (stats g)\<lparr>failed := failed (stats g) + 1\<rparr>\<rparr>))"

text \<open>
  \<^verbatim>\<open>run_batch\<close>. Job \<open>i\<close> runs \<^verbatim>\<open>generate_single(prompt_data, i)\<close> on a worker
  thread, against its own script \<open>services i\<close>, file read \<open>files i\<close> and clock
  \<open>worlds i\<close>; \<open>completed\<close> is the order in which the tasks complete, a permutation
  of the indices; \<open>t_start\<close> and \<open>t_end\<close> are the two \<^verbatim>\<open>datetime.now()\<close>.
  \<^verbatim>\<open>ThreadPoolExecutor\<close> raises \<^verbatim>\<open>ValueError\<close> unless \<^verbatim>\<open>max_workers\<close> is
  positive. The result is the list returned or the exception, and the generator afterwards.
\<close>

definition run_batch ::
  "(nat \<Rightarrow> service) \<Rightarrow> (nat \<Rightarrow> file_read) \<Rightarrow> (nat \<Rightarrow> world) \<Rightarrow> nat list \<Rightarrow> int \<Rightarrow> int \<Rightarrow>
     batch_generator \<Rightarrow> (string \<times> int option) list \<Rightarrow>
     (py_exception + job_result list) \<times> batch_generator"
where
  "run_batch services files worlds completed t_start t_end g prompts =
     (let g1 = g\<lparr>stats := (stats g)\<lparr>start_time := Some t_start,
                                      total := int (length prompts)\<rparr>\<rparr>
      in
        if max_workers (config g) \<le> 0
        then (Inl (ValueError ''max_workers must be greater than 0''), g1)
        else
          (let g2 =
                 collect
                   (\<lambda>i. Inr (fst (generate_single (config g) (services i) (files i)
                                     (prompts ! i) i (worlds i))))
                   completed g1;
               g3 = g2\<lparr>stats := (stats g2)\<lparr>end_time := Some t_end,
                                              total_time := t_end - t_start\<rparr>\<rparr>
           in (Inr (results g3), g3)))"

subsection \<open>The \<^verbatim>\<open>statistics\<close> module and \<^verbatim>\<open>print_summary\<close>\<close>









section \<open>test_performance.py: PerformanceBenchmark\<close>








section \<open>Example inputs\<close>

definition start_world :: world where
  "start_world = \<lparr>clock = 0, posts = 0, gets = 0, slept = []\<rparr>"

text \<open>A service that cannot be reached: every call raises.\<close>

definition refusing_service :: service where
  "refusing_service =
     \<lparr>post_reply = (\<lambda>k. Post_raises ''connection refused''), post_time = (\<lambda>k. 10),
      get_reply = (\<lambda>k. Get_raises ''connection refused''), get_time = (\<lambda>k. 10)\<rparr>"

text \<open>A service that answers every submission with status 429.\<close>

definition rate_limiting_service :: service where
  "rate_limiting_service =
     \<lparr>post_reply = (\<lambda>k. Post_response 429 None), post_time = (\<lambda>k. 10),
      get_reply = (\<lambda>k. Get_raises ''connection refused''), get_time = (\<lambda>k. 10)\<rparr>"

text \<open>A workflow with the three nodes the clients write to, and a request.\<close>

definition example_workflow :: json where
  "example_workflow =
     JObject [(''input'', JObject [(''workflow'', JObject
       [(''3'', JObject [(''inputs'', JObject [(''seed'', JInt 42), (''steps'', JInt 8), (''cfg'', JFloat 1)])]),
        (''6'', JObject [(''inputs'', JObject [(''text'', JStr ''a cat'')])]),
        (''58'', JObject [(''inputs'', JObject [(''width'', JInt 1328), (''height'', JInt 1328), (''batch_size'', JInt 1)])])])])]"

definition example_request :: generation_request where
  "example_request = \<lparr>prompt = ''a dragon'', seed = Some 12345, width = 1024, height = 1024,
     steps = 8, cfg_scale = 1, batch_size = 1\<rparr>"

text \<open>The image every example service reports once a job is done.\<close>

definition done_outputs :: outputs where
  "done_outputs = [(''60'', Some [Some ''qwen_00001_.png''])]"

text \<open>
  A service that is rate limited twice before it accepts the job, and has the image
  ready at the first poll.
\<close>

definition slow_submit_service :: service where
  "slow_submit_service =
     \<lparr>post_reply = (\<lambda>k. if k < 2 then Post_response 429 None
                          else Post_response 200 (Some ''p1'')),
      post_time = (\<lambda>k. 10),
      get_reply = (\<lambda>k. Get_response 200 (Some done_outputs)),
      get_time = (\<lambda>k. 10)\<rparr>"

text \<open>A service that takes five seconds to accept the job.\<close>

definition slow_post_service :: service where
  "slow_post_service =
     \<lparr>post_reply = (\<lambda>k. Post_response 200 (Some ''p1'')),
      post_time = (\<lambda>k. 5000),
      get_reply = (\<lambda>k. Get_response 200 (Some done_outputs)),
      get_time = (\<lambda>k. 10)\<rparr>"

text \<open>A service whose history does not know the job at the first poll, and has it at the second.\<close>

definition late_history_service :: service where
  "late_history_service =
     \<lparr>post_reply = (\<lambda>k. Post_response 200 (Some ''p1'')),
      post_time = (\<lambda>k. 10),
      get_reply = (\<lambda>k. if k = 0 then Get_response 200 None
                         else Get_response 200 (Some done_outputs)),
      get_time = (\<lambda>k. 10)\<rparr>"

text \<open>A service whose history never knows the job.\<close>

definition forgetful_service :: service where
  "forgetful_service =
     \<lparr>post_reply = (\<lambda>k. Post_response 200 (Some ''p1'')),
      post_time = (\<lambda>k. 10),
      get_reply = (\<lambda>k. Get_response 200 None),
      get_time = (\<lambda>k. 10)\<rparr>"

text \<open>A service whose first poll fails in transport; at the second the image would be there.\<close>

definition flaky_poll_service :: service where
  "flaky_poll_service =
     \<lparr>post_reply = (\<lambda>k. Post_response 200 (Some ''p1'')),
      post_time = (\<lambda>k. 10),
      get_reply = (\<lambda>k. if k = 0 then Get_raises ''connection reset''
                         else Get_response 200 (Some done_outputs)),
      get_time = (\<lambda>k. 10)\<rparr>"

text \<open>Clients with a per-job timeout of two seconds.\<close>

definition short_api :: api_client where
  "short_api = default_api\<lparr>timeout := 2\<rparr>"

definition short_quick :: quick_generator where
  "short_quick = \<lparr>quick_base_url = ''http://localhost:8188'', quick_timeout = 2\<rparr>"

definition short_batch :: batch_config where
  "short_batch =
     \<lparr>prompts_file = ''sample_prompts.txt'', output_dir = ''batch_output'', max_workers = 3,
      batch_timeout = 2, batch_base_url = ''http://localhost:8188'', save_metadata = True,
      retry_failed = True\<rparr>"

text \<open>The default client with \<^verbatim>\<open>retry_delay=0\<close>.\<close>

definition eager_api :: api_client where
  "eager_api = default_api\<lparr>retry_delay := 0\<rparr>"

text \<open>A batch of two prompts; the first job is served, the second is refused.\<close>

definition example_prompts :: "(string \<times> int option) list" where
  "example_prompts = [(''a dragon'', Some 7), (''a cat'', None)]"

definition example_services :: "nat \<Rightarrow> service" where
  "example_services i = (if i = 0 then slow_post_service else refusing_service)"

text \<open>The generator after the batch above has run on it, the jobs completing in the order 1, 0.\<close>

definition used_generator :: batch_generator where
  "used_generator =
     snd (run_batch example_services (\<lambda>i. File_json example_workflow) (\<lambda>i. start_world)
            [1, 0] 0 9000 (new_generator short_batch) example_prompts)"







section \<open>Predicates for the properties of \<^verbatim>\<open>prepare_workflow\<close>\<close>
















section \<open>Properties of the submission loop\<close>





text \<open>All POSTs are answered with 429: every iteration sleeps.\<close>

lemma submit_attempts_all_429:
  assumes "\<And>k. \<exists>b. post_reply s k = Post_response 429 b" and "0 \<le> retry_delay api"
  shows "slept (snd (submit_attempts api s attempt n w))
    = slept w @ map (backoff_delay api) [attempt..<attempt + n]"
proof (induction n arbitrary: attempt w)
  case 0
  then show ?case by simp
next
  case (Suc n)
  obtain b where b: "post_reply s (posts w) = Post_response 429 b"
    using assms(1) by blast
  define w1 where "w1 = snd (do_post s w)"
  have p: "do_post s w = (Post_response 429 b, w1)"
    by (simp add: w1_def do_post_def b)
  have w1: "slept w1 = slept w"
    by (simp add: w1_def do_post_def)
  have d: "\<not> backoff_delay api attempt < 0"
    using assms(2) by (simp add: backoff_delay_def not_less)
  have step: "submit_attempts api s attempt (Suc n) w
      = submit_attempts api s (Suc attempt) n (advance (backoff_delay api attempt) w1)"
    using p d by (simp add: sleep_def)
  have "slept (advance (backoff_delay api attempt) w1) = slept w @ [backoff_delay api attempt]"
    using w1 by (simp add: advance_def)
  moreover have "[attempt..<attempt + Suc n] = attempt # [Suc attempt..<Suc attempt + n]"
    by (simp add: upt_conv_Cons)
  ultimately show ?case
    unfolding step
    using Suc.IH [of "Suc attempt" "advance (backoff_delay api attempt) w1"]
    by simp
qed

text \<open>All POSTs raise: the sleeps are those after all attempts but the last.\<close>

lemma submit_attempts_raise_sleeps:
  assumes "\<And>k. \<exists>m. post_reply s k = Post_raises m" and "0 \<le> retry_delay api"
  shows "int (attempt + n) = max_retries api \<Longrightarrow>
    slept (snd (submit_attempts api s attempt n w))
      = slept w @ map (backoff_delay api) [attempt..<attempt + n - 1]"
proof (induction n arbitrary: attempt w)
  case 0
  then show ?case by simp
next
  case (Suc n)
  obtain m where m: "post_reply s (posts w) = Post_raises m"
    using assms(1) by blast
  define w1 where "w1 = snd (do_post s w)"
  have p: "do_post s w = (Post_raises m, w1)"
    by (simp add: w1_def do_post_def m)
  have w1: "slept w1 = slept w"
    by (simp add: w1_def do_post_def)
  have d: "\<not> backoff_delay api attempt < 0"
    using assms(2) by (simp add: backoff_delay_def not_less)
  have rest: "int (Suc attempt + n) = max_retries api"
    using Suc.prems by simp
  show ?case
  proof (cases "n = 0")
    case True
    then have "\<not> int attempt < max_retries api - 1"
      using Suc.prems by simp
    then have step: "submit_attempts api s attempt (Suc n) w
        = submit_attempts api s (Suc attempt) n w1"
      using p by simp
    show ?thesis
      unfolding step using True w1 by simp
  next
    case False
    then have "int attempt < max_retries api - 1"
      using Suc.prems by simp
    then have step: "submit_attempts api s attempt (Suc n) w
        = submit_attempts api s (Suc attempt) n (advance (backoff_delay api attempt) w1)"
      using p d by (simp add: sleep_def)
    have "slept (advance (backoff_delay api attempt) w1) = slept w @ [backoff_delay api attempt]"
      using w1 by (simp add: advance_def)
    moreover have "[attempt..<attempt + Suc n - 1] = attempt # [Suc attempt..<Suc attempt + n - 1]"
      using False by (simp add: upt_conv_Cons)
    ultimately show ?thesis
      unfolding step
      using Suc.IH [OF rest, of "advance (backoff_delay api attempt) w1"]
      by simp
  qed
qed

lemma submit_generation_raise_sleeps:
  assumes "\<And>k. \<exists>m. post_reply s k = Post_raises m" and "0 \<le> retry_delay api"
  shows "slept (snd (submit_generation api s w))
    = slept w @ map (backoff_delay api) [0..<nat (max_retries api) - 1]"
proof (cases "0 \<le> max_retries api")
  case True
  then show ?thesis
    using submit_attempts_raise_sleeps [OF assms, of 0 "nat (max_retries api)" w]
    by (simp add: submit_generation_def)
next
  case False
  then show ?thesis
    by (simp add: submit_generation_def)
qed

text \<open>
  Whatever the service answers, the arguments of the \<^verbatim>\<open>time.sleep\<close> calls of the
  loop are the delays of some of its attempts, in the order of the attempts.
\<close>

lemma submit_attempts_sleeps:
  "\<exists>as. slept (snd (submit_attempts api s attempt n w)) = slept w @ map (backoff_delay api) as
     \<and> sorted_wrt (<) as \<and> set as \<subseteq> {attempt..<attempt + n}"
proof (induction n arbitrary: attempt w)
  case 0
  have "slept (snd (submit_attempts api s attempt 0 w)) = slept w @ map (backoff_delay api) []"
    by simp
  then show ?case
    by (intro exI [of _ "[]"]) simp
next
  case (Suc n)
  obtain r w1 where p: "do_post s w = (r, w1)"
    by (cases "do_post s w")
  have w1: "slept w1 = slept w"
    using p by (auto simp: do_post_def)
  have stop: ?case if "slept (snd (submit_attempts api s attempt (Suc n) w)) = slept w"
    using that by (intro exI [of _ "[]"]) simp
  have skip: ?case
    if "submit_attempts api s attempt (Suc n) w = submit_attempts api s (Suc attempt) n w1"
  proof -
    obtain as where as: "slept (snd (submit_attempts api s (Suc attempt) n w1))
        = slept w1 @ map (backoff_delay api) as"
      "sorted_wrt (<) as" "set as \<subseteq> {Suc attempt..<Suc attempt + n}"
      using Suc.IH [of "Suc attempt" w1] by blast
    have "set as \<subseteq> {attempt..<attempt + Suc n}"
      using as(3) by auto
    then show ?thesis
      unfolding that using as(1,2) w1 by (intro exI [of _ as]) simp
  qed
  have wait: ?case
    if "submit_attempts api s attempt (Suc n) w
        = submit_attempts api s (Suc attempt) n (advance (backoff_delay api attempt) w1)"
  proof -
    obtain as where as: "slept (snd (submit_attempts api s (Suc attempt) n
          (advance (backoff_delay api attempt) w1)))
        = slept (advance (backoff_delay api attempt) w1) @ map (backoff_delay api) as"
      "sorted_wrt (<) as" "set as \<subseteq> {Suc attempt..<Suc attempt + n}"
      using Suc.IH [of "Suc attempt" "advance (backoff_delay api attempt) w1"] by blast
    have "set (attempt # as) \<subseteq> {attempt..<attempt + Suc n}"
      using as(3) by auto
    moreover have "sorted_wrt (<) (attempt # as)"
      using as(2,3) by auto
    moreover have "slept (snd (submit_attempts api s attempt (Suc n) w))
        = slept w @ map (backoff_delay api) (attempt # as)"
      unfolding that using as(1) w1 by (simp add: advance_def)
    ultimately show ?thesis
      by (intro exI [of _ "attempt # as"]) simp
  qed
  show ?case
  proof (cases r)
    case (Post_raises msg)
    show ?thesis
    proof (cases "int attempt < max_retries api - 1 \<and> \<not> backoff_delay api attempt < 0")
      case True
      then show ?thesis
        using p Post_raises by (intro wait) (simp add: sleep_def)
    next
      case False
      then consider "int attempt < max_retries api - 1" "backoff_delay api attempt < 0"
        | "\<not> int attempt < max_retries api - 1"
        by blast
      then show ?thesis
      proof cases
        case 1
        then show ?thesis
          using p Post_raises w1 by (intro stop) (simp add: sleep_def)
      next
        case 2
        then show ?thesis
          using p Post_raises by (intro skip) simp
      qed
    qed
  next
    case (Post_response status body)
    consider "status = 200" | "status = 429" "\<not> backoff_delay api attempt < 0"
      | "status = 429" "backoff_delay api attempt < 0" | "status \<noteq> 200" "status \<noteq> 429"
      by blast
    then show ?thesis
    proof cases
      case 1
      then show ?thesis
        using p Post_response w1 by (intro stop) (simp split: option.splits)
    next
      case 2
      then show ?thesis
        using p Post_response by (intro wait) (simp add: sleep_def)
    next
      case 3
      then show ?thesis
        using p Post_response w1 by (intro stop) (simp add: sleep_def)
    next
      case 4
      then show ?thesis
        using p Post_response by (intro skip) simp
    qed
  qed
qed

text \<open>
  Claim C6, as the code has it. The delay slept after the attempt of index \<open>attempt\<close>
  (from 0) is \<open>retry_delay * (attempt + 1)\<close>, and the loop makes the attempts of the
  indices below \<open>max_retries\<close> only. With a positive \<open>retry_delay\<close>, the delay of
  every such attempt is positive and at most \<open>retry_delay * max_retries\<close>, and it is
  smaller than the delay of every later one. Whatever the service answers, every
  \<^verbatim>\<open>time.sleep\<close> of \<^verbatim>\<open>submit_generation\<close> is the delay of one of these attempts,
  and they are slept in the order of the attempts: when every submission is answered with
  status 429 one after each attempt, and when every submission raises a transport error one
  after every attempt but the last.
\<close>

theorem backoff_grows_within_retries:
  assumes "0 < retry_delay api"
  shows "(\<forall>a. int a < max_retries api \<longrightarrow>
            0 < backoff_delay api a \<and> backoff_delay api a \<le> retry_delay api * max_retries api)
    \<and> (\<forall>a b. a < b \<and> int b < max_retries api \<longrightarrow> backoff_delay api a < backoff_delay api b)
    \<and> (\<exists>as. slept (snd (submit_generation api s w)) = slept w @ map (backoff_delay api) as
          \<and> sorted_wrt (<) as \<and> (\<forall>a\<in>set as. int a < max_retries api))
    \<and> ((\<forall>k. \<exists>b. post_reply s k = Post_response 429 b) \<longrightarrow>
         slept (snd (submit_generation api s w))
           = slept w @ map (backoff_delay api) [0..<nat (max_retries api)])
    \<and> ((\<forall>k. \<exists>m. post_reply s k = Post_raises m) \<longrightarrow>
         slept (snd (submit_generation api s w))
           = slept w @ map (backoff_delay api) [0..<nat (max_retries api) - 1])"
proof -
  have bounds: "0 < backoff_delay api a \<and> backoff_delay api a \<le> retry_delay api * max_retries api"
    if "int a < max_retries api" for a
  proof -
    have "int a + 1 \<le> max_retries api"
      using that by simp
    then have "retry_delay api * (int a + 1) \<le> retry_delay api * max_retries api"
      using assms by (intro mult_left_mono) simp_all
    moreover have "0 < retry_delay api * (int a + 1)"
      using assms by simp
    ultimately show ?thesis
      by (simp add: backoff_delay_def)
  qed
  have grows: "backoff_delay api a < backoff_delay api b" if "a < b" for a b
    using assms that by (simp add: backoff_delay_def)
  obtain as where as: "slept (snd (submit_generation api s w))
      = slept w @ map (backoff_delay api) as" "sorted_wrt (<) as"
    "set as \<subseteq> {0..<0 + nat (max_retries api)}"
    using submit_attempts_sleeps [of api s 0 "nat (max_retries api)" w]
    unfolding submit_generation_def by blast
  have "\<forall>a\<in>set as. int a < max_retries api"
    using as(3) by auto
  then have general: "\<exists>as. slept (snd (submit_generation api s w))
      = slept w @ map (backoff_delay api) as
      \<and> sorted_wrt (<) as \<and> (\<forall>a\<in>set as. int a < max_retries api)"
    using as(1,2) by blast
  have limited: "slept (snd (submit_generation api s w))
      = slept w @ map (backoff_delay api) [0..<nat (max_retries api)]"
    if "\<forall>k. \<exists>b. post_reply s k = Post_response 429 b"
    using submit_attempts_all_429 [of s api 0 "nat (max_retries api)" w] that assms
    by (simp add: submit_generation_def)
  have refused: "slept (snd (submit_generation api s w))
      = slept w @ map (backoff_delay api) [0..<nat (max_retries api) - 1]"
    if "\<forall>k. \<exists>m. post_reply s k = Post_raises m"
    using submit_generation_raise_sleeps [of s api w] that assms by simp
  show ?thesis
    using bounds grows general limited refused by blast
qed

text \<open>
  The default client: three attempts, with the delays 1000, 2000 and 3000 ms, none above
  \<open>retry_delay * max_retries\<close>; against a service that always answers 429 it sleeps
  all three, against one that refuses every connection the first two.
\<close>

theorem backoff_grows_within_retries_witness:
  "0 < retry_delay default_api
   \<and> retry_delay default_api * max_retries default_api = 3000
   \<and> map (backoff_delay default_api) [0, 1, 2] = [1000, 2000, 3000]
   \<and> (\<forall>k. \<exists>b. post_reply rate_limiting_service k = Post_response 429 b)
   \<and> slept (snd (submit_generation default_api rate_limiting_service start_world))
       = [1000, 2000, 3000]
   \<and> (\<forall>k. \<exists>m. post_reply refusing_service k = Post_raises m)
   \<and> slept (snd (submit_generation default_api refusing_service start_world))
       = [1000, 2000]"
proof -
  have pos: "0 < retry_delay default_api"
    by (simp add: default_api_def)
  have limited: "\<forall>k. \<exists>b. post_reply rate_limiting_service k = Post_response 429 b"
    by (simp add: rate_limiting_service_def)
  have refused: "\<forall>k. \<exists>m. post_reply refusing_service k = Post_raises m"
    by (simp add: refusing_service_def)
  have "slept (snd (submit_generation default_api rate_limiting_service start_world))
      = slept start_world @ map (backoff_delay default_api) [0..<nat (max_retries default_api)]"
    using backoff_grows_within_retries [OF pos, of rate_limiting_service start_world] limited
    by blast
  moreover have "slept (snd (submit_generation default_api refusing_service start_world))
      = slept start_world
        @ map (backoff_delay default_api) [0..<nat (max_retries default_api) - 1]"
    using backoff_grows_within_retries [OF pos, of refusing_service start_world] refused
    by blast
  moreover have "[0..<nat (max_retries default_api)] = [0, 1, 2]"
    "[0..<nat (max_retries default_api) - 1] = [0, 1]"
    by (simp_all add: default_api_def upt_conv_Cons)
  ultimately show ?thesis
    using pos limited refused
    by (simp add: start_world_def backoff_delay_def default_api_def)
qed

text \<open>
  Claim C6 as stated fails. A client constructed with \<^verbatim>\<open>retry_delay=0\<close> sleeps a
  zero delay after every rate limited attempt: the delay is zero and does not grow, and
  the three submissions follow each other with no pause between them.
\<close>

theorem backoff_zero_delay_counterexample:
  "backoff_delay eager_api 0 = 0 \<and> backoff_delay eager_api 1 = 0
   \<and> \<not> 0 < backoff_delay eager_api 0
   \<and> \<not> backoff_delay eager_api 0 < backoff_delay eager_api 1
   \<and> submit_generation eager_api rate_limiting_service start_world
       = (Inr None, \<lparr>clock = 30, posts = 3, gets = 0, slept = [0, 0, 0]\<rparr>)"
  by code_simp









section \<open>Properties of the polling loops\<close>

text \<open>A polling loop never takes a GET back.\<close>

lemma gets_wait_loop: "gets w \<le> gets (snd (wait_loop api s pid started w))"
proof (induction api s pid started w rule: wait_loop.induct)
  case (1 api s pid started w)
  show ?case
  proof (cases "clock w - started < timeout api * 1000")
    case False
    then show ?thesis by (simp add: wait_loop.simps [of api s pid started w])
  next
    case True
    obtain r w1 where g: "do_get s w = (r, w1)"
      by (cases "do_get s w")
    have w1: "gets w1 = Suc (gets w)"
      using g by (auto simp: do_get_def)
    show ?thesis
    proof (cases r)
      case (Get_raises msg)
      then show ?thesis
        using True g w1 by (simp add: wait_loop.simps [of api s pid started w])
    next
      case (Get_response status history)
      have again: "gets w \<le> gets (snd (wait_loop api s pid started (advance 1000 w1)))"
        if "status \<noteq> 200 \<or> history = None"
      proof -
        have "gets (advance 1000 w1)
            \<le> gets (snd (wait_loop api s pid started (advance 1000 w1)))"
          using that "1.IH"(1) [OF True g [symmetric] Get_response]
            "1.IH"(2) [OF True g [symmetric] Get_response]
          by (cases "status = 200") auto
        then show ?thesis
          using w1 by (simp add: advance_def)
      qed
      show ?thesis
        using True g w1 Get_response again
        by (cases history; cases "status = 200")
          (simp_all add: wait_loop.simps [of api s pid started w])
    qed
  qed
qed

lemma gets_poll_history: "gets w \<le> gets (snd (poll_history cfg s started w))"
proof (induction cfg s started w rule: poll_history.induct)
  case (1 cfg s started w)
  show ?case
  proof (cases "clock w - started < batch_timeout cfg * 1000")
    case False
    then show ?thesis by (simp add: poll_history.simps [of cfg s started w])
  next
    case True
    obtain r w1 where g: "do_get s w = (r, w1)"
      by (cases "do_get s w")
    have w1: "gets w1 = Suc (gets w)"
      using g by (auto simp: do_get_def)
    show ?thesis
    proof (cases r)
      case (Get_raises msg)
      then show ?thesis
        using True g w1 by (simp add: poll_history.simps [of cfg s started w])
    next
      case (Get_response status history)
      have again: "gets w \<le> gets (snd (poll_history cfg s started (advance 1000 w1)))"
        if "status \<noteq> 200 \<or> history = None
            \<or> (\<exists>outs. history = Some outs \<and> first_filename outs = None)"
      proof -
        have "gets (advance 1000 w1)
            \<le> gets (snd (poll_history cfg s started (advance 1000 w1)))"
          using that "1.IH"(1) [OF True g [symmetric] Get_response]
            "1.IH"(2) [OF True g [symmetric] Get_response]
            "1.IH"(3) [OF True g [symmetric] Get_response]
          by (cases "status = 200") auto
        then show ?thesis
          using w1 by (simp add: advance_def)
      qed
      show ?thesis
      proof (cases "status = 200")
        case False
        then show ?thesis
          using True g w1 Get_response again
          by (simp add: poll_history.simps [of cfg s started w])
      next
        case ok: True
        show ?thesis
        proof (cases history)
          case None
          then show ?thesis
            using True g w1 Get_response again ok
            by (simp add: poll_history.simps [of cfg s started w])
        next
          case (Some outs)
          then show ?thesis
            using True g w1 Get_response again ok
            by (cases "first_filename outs")
              (auto simp: poll_history.simps [of cfg s started w] split: sum.splits)
        qed
      qed
    qed
  qed
qed

text \<open>
  While the time since \<open>started\<close> is below the timeout, the loop sends a GET; when that
  GET finds the job done, the loop returns the successful result.
\<close>

lemma wait_loop_polls:
  assumes "clock w - started < timeout api * 1000"
  shows "gets w < gets (snd (wait_loop api s pid started w))"
proof -
  obtain r w1 where g: "do_get s w = (r, w1)"
    by (cases "do_get s w")
  have w1: "gets w1 = Suc (gets w)"
    using g by (auto simp: do_get_def)
  have "gets w1 \<le> gets (snd (wait_loop api s pid started (advance 1000 w1)))"
    using gets_wait_loop [of "advance 1000 w1" api s pid started] by (simp add: advance_def)
  then show ?thesis
    using assms g w1
    by (simp add: wait_loop.simps [of api s pid started w]
        split: get_outcome.splits option.splits)
qed

lemma wait_loop_found:
  assumes "clock w - started < timeout api * 1000"
    and "get_reply s (gets w) = Get_response 200 (Some outs)"
  shows "fst (wait_loop api s pid started w)
    = \<lparr>success = True, prompt_id = Some pid,
       generation_time = Some (clock w + int (get_time s (gets w)) - started),
       images = Some (collect_images outs), error = None\<rparr>"
  using assms by (simp add: wait_loop.simps [of api s pid started w] do_get_def)

lemma poll_history_polls:
  assumes "clock w - started < batch_timeout cfg * 1000"
  shows "gets w < gets (snd (poll_history cfg s started w))"
proof -
  obtain r w1 where g: "do_get s w = (r, w1)"
    by (cases "do_get s w")
  have w1: "gets w1 = Suc (gets w)"
    using g by (auto simp: do_get_def)
  have "gets w1 \<le> gets (snd (poll_history cfg s started (advance 1000 w1)))"
    using gets_poll_history [of "advance 1000 w1" cfg s started] by (simp add: advance_def)
  then show ?thesis
    using assms g w1
    by (simp add: poll_history.simps [of cfg s started w]
        split: get_outcome.splits option.splits sum.splits)
qed

lemma poll_history_found:
  assumes "clock w - started < batch_timeout cfg * 1000"
    and "get_reply s (gets w) = Get_response 200 (Some outs)"
    and "first_filename outs = Some (Inr filename)"
  shows "poll_history cfg s started w = (Inr (Some filename), snd (do_get s w))"
  using assms by (simp add: poll_history.simps [of cfg s started w] do_get_def)

text \<open>
  Claim C3, as the code has it. The timeout is counted from the moment polling starts, not
  from the first submission attempt: \<^verbatim>\<open>generate_image\<close> calls
  \<^verbatim>\<open>wait_for_completion\<close>, which reads its \<^verbatim>\<open>start_time\<close> on entry, after
  \<^verbatim>\<open>submit_generation\<close> has returned with all its attempts and backoffs, and
  \<^verbatim>\<open>generate_single\<close> reads \<^verbatim>\<open>generation_start\<close> after the POST has returned.
  So with a positive timeout, a job whose submission was accepted is polled at least once,
  however long the submission took, and when that poll finds the job done the job
  succeeds. The time reported by \<^verbatim>\<open>generate_image\<close> is then the duration of that one
  poll, the time reported by \<^verbatim>\<open>generate_single\<close> runs from its entry.
\<close>

theorem timeout_budget_starts_with_polling:
  "(0 < timeout api \<and> load_workflow file h = (Some workflow, h1) \<and> truthy h1 workflow
      \<and> prepare_workflow (clock w) h1 workflow request = (Inr prepared, h2)
      \<and> submit_generation api s w = (Inr (Some pid), w1) \<and> pid \<noteq> [] \<longrightarrow>
        generate_image api s file request h w
          = (Inr (fst (wait_loop api s pid (clock w1) w1)), h2,
             snd (wait_loop api s pid (clock w1) w1))
        \<and> gets w1 < gets (snd (snd (generate_image api s file request h w)))
        \<and> (\<forall>outs. get_reply s (gets w1) = Get_response 200 (Some outs) \<longrightarrow>
              fst (generate_image api s file request h w)
                = Inr \<lparr>success = True, prompt_id = Some pid,
                       generation_time = Some (int (get_time s (gets w1))),
                       images = Some (collect_images outs), error = None\<rparr>))
   \<and> (0 < batch_timeout cfg \<and> batch_load_workflow file [] = (Some workflow, h1)
      \<and> truthy h1 workflow
      \<and> set_node_input h1 workflow ''6'' ''text'' (VStr (fst prompt_data)) = Inr h2
      \<and> (case snd prompt_data of
            None \<Rightarrow> Inr h2
          | Some n \<Rightarrow>
              if n \<noteq> 0 then set_node_input h2 workflow ''3'' ''seed'' (VInt n) else Inr h2)
          = Inr h3
      \<and> do_post s w = (Post_response 200 (Some pid), w1) \<longrightarrow>
        generate_single_try cfg s file prompt_data index w
          = (case poll_history cfg s (clock w1) w1 of
               (Inl e, w2) \<Rightarrow> (Inl e, w2)
             | (Inr (Some filename), w2) \<Rightarrow>
                 (Inr ((initial_result prompt_data index)
                         \<lparr>job_success := True, job_filename := Some filename,
                            job_generation_time := clock w2 - clock w,
                            job_prompt_id := Some pid\<rparr>), w2)
             | (Inr None, w2) \<Rightarrow>
                 (Inr ((initial_result prompt_data index)
                         \<lparr>job_error := Some ''Generation timeout''\<rparr>), w2))
        \<and> gets w1 < gets (snd (generate_single cfg s file prompt_data index w))
        \<and> (\<forall>outs filename. get_reply s (gets w1) = Get_response 200 (Some outs)
               \<and> first_filename outs = Some (Inr filename) \<longrightarrow>
              fst (generate_single cfg s file prompt_data index w)
                = (initial_result prompt_data index)
                    \<lparr>job_success := True, job_filename := Some filename,
                       job_generation_time :=
                         int (post_time s (posts w)) + int (get_time s (gets w1)),
                       job_prompt_id := Some pid\<rparr>))"
proof (rule conjI; rule impI)
  assume a: "0 < timeout api \<and> load_workflow file h = (Some workflow, h1) \<and> truthy h1 workflow
      \<and> prepare_workflow (clock w) h1 workflow request = (Inr prepared, h2)
      \<and> submit_generation api s w = (Inr (Some pid), w1) \<and> pid \<noteq> []"
  have guard: "clock w1 - clock w1 < timeout api * 1000"
    using a by simp
  have run: "generate_image api s file request h w
      = (Inr (fst (wait_loop api s pid (clock w1) w1)), h2,
         snd (wait_loop api s pid (clock w1) w1))"
    using a by (simp add: generate_image_def wait_for_completion_def case_prod_beta)
  have polled: "gets w1 < gets (snd (snd (generate_image api s file request h w)))"
    unfolding run using wait_loop_polls [OF guard] by simp
  have found: "fst (generate_image api s file request h w)
      = Inr \<lparr>success = True, prompt_id = Some pid,
             generation_time = Some (int (get_time s (gets w1))),
             images = Some (collect_images outs), error = None\<rparr>"
    if "get_reply s (gets w1) = Get_response 200 (Some outs)" for outs
    unfolding run using wait_loop_found [OF guard that, of pid] by simp
  show "generate_image api s file request h w
          = (Inr (fst (wait_loop api s pid (clock w1) w1)), h2,
             snd (wait_loop api s pid (clock w1) w1))
        \<and> gets w1 < gets (snd (snd (generate_image api s file request h w)))
        \<and> (\<forall>outs. get_reply s (gets w1) = Get_response 200 (Some outs) \<longrightarrow>
              fst (generate_image api s file request h w)
                = Inr \<lparr>success = True, prompt_id = Some pid,
                       generation_time = Some (int (get_time s (gets w1))),
                       images = Some (collect_images outs), error = None\<rparr>)"
    using run polled found by blast
next
  let ?polled = "case poll_history cfg s (clock w1) w1 of
               (Inl e, w2) \<Rightarrow> (Inl e, w2)
             | (Inr (Some filename), w2) \<Rightarrow>
                 (Inr ((initial_result prompt_data index)
                         \<lparr>job_success := True, job_filename := Some filename,
                            job_generation_time := clock w2 - clock w,
                            job_prompt_id := Some pid\<rparr>), w2)
             | (Inr None, w2) \<Rightarrow>
                 (Inr ((initial_result prompt_data index)
                         \<lparr>job_error := Some ''Generation timeout''\<rparr>), w2)"
  assume a: "0 < batch_timeout cfg \<and> batch_load_workflow file [] = (Some workflow, h1)
      \<and> truthy h1 workflow
      \<and> set_node_input h1 workflow ''6'' ''text'' (VStr (fst prompt_data)) = Inr h2
      \<and> (case snd prompt_data of
            None \<Rightarrow> Inr h2
          | Some n \<Rightarrow>
              if n \<noteq> 0 then set_node_input h2 workflow ''3'' ''seed'' (VInt n) else Inr h2)
          = Inr h3
      \<and> do_post s w = (Post_response 200 (Some pid), w1)"
  have guard: "clock w1 - clock w1 < batch_timeout cfg * 1000"
    using a by simp
  have w1: "clock w1 = clock w + int (post_time s (posts w))" "gets w1 = gets w"
    using a by (auto simp: do_post_def)
  have run: "generate_single_try cfg s file prompt_data index w = ?polled"
    using a by (simp add: generate_single_try_def Let_def)
  have same_world: "snd (generate_single cfg s file prompt_data index w)
      = snd (poll_history cfg s (clock w1) w1)"
    unfolding generate_single_def run
    by (simp split: prod.splits sum.splits option.splits)
  have polled: "gets w1 < gets (snd (generate_single cfg s file prompt_data index w))"
    unfolding same_world by (rule poll_history_polls [OF guard])
  have found: "fst (generate_single cfg s file prompt_data index w)
      = (initial_result prompt_data index)
          \<lparr>job_success := True, job_filename := Some filename,
             job_generation_time := int (post_time s (posts w)) + int (get_time s (gets w1)),
             job_prompt_id := Some pid\<rparr>"
    if "get_reply s (gets w1) = Get_response 200 (Some outs)
        \<and> first_filename outs = Some (Inr filename)" for outs filename
  proof -
    have "poll_history cfg s (clock w1) w1 = (Inr (Some filename), snd (do_get s w1))"
      using poll_history_found [OF guard, of s outs filename] that by simp
    then show ?thesis
      unfolding generate_single_def run using w1 by (simp add: do_get_def)
  qed
  show "generate_single_try cfg s file prompt_data index w = ?polled
        \<and> gets w1 < gets (snd (generate_single cfg s file prompt_data index w))
        \<and> (\<forall>outs filename. get_reply s (gets w1) = Get_response 200 (Some outs)
               \<and> first_filename outs = Some (Inr filename) \<longrightarrow>
              fst (generate_single cfg s file prompt_data index w)
                = (initial_result prompt_data index)
                    \<lparr>job_success := True, job_filename := Some filename,
                       job_generation_time :=
                         int (post_time s (posts w)) + int (get_time s (gets w1)),
                       job_prompt_id := Some pid\<rparr>)"
    using run polled found by blast
qed

text \<open>
  A two second timeout. The first job is rate limited twice and starts polling 3030 ms
  after its first attempt; the POST of the second takes five seconds. Both are polled, and
  both succeed at the first poll.
\<close>

theorem timeout_budget_starts_with_polling_witness:
  "0 < timeout short_api
   \<and> fst (submit_generation short_api slow_submit_service start_world) = Inr (Some ''p1'')
   \<and> clock (snd (submit_generation short_api slow_submit_service start_world)) = 3030
   \<and> get_reply slow_submit_service 0 = Get_response 200 (Some done_outputs)
   \<and> fst (generate_image short_api slow_submit_service (File_json example_workflow)
            example_request [] start_world)
       = Inr \<lparr>success = True, prompt_id = Some ''p1'', generation_time = Some 10,
              images = Some [Some ''qwen_00001_.png''], error = None\<rparr>
   \<and> 0 < batch_timeout short_batch
   \<and> do_post slow_post_service start_world
       = (Post_response 200 (Some ''p1''), \<lparr>clock = 5000, posts = 1, gets = 0, slept = []\<rparr>)
   \<and> get_reply slow_post_service 0 = Get_response 200 (Some done_outputs)
   \<and> first_filename done_outputs = Some (Inr ''qwen_00001_.png'')
   \<and> fst (generate_single short_batch slow_post_service (File_json example_workflow)
            (''a dragon'', Some 7) 0 start_world)
       = \<lparr>job_index = 0, job_prompt = ''a dragon'', job_seed = Some 7, job_success = True,
          job_filename = Some ''qwen_00001_.png'', job_generation_time = 5010,
          job_error = None, job_prompt_id = Some ''p1''\<rparr>"
proof -
  define h1 where "h1 = snd (load_workflow (File_json example_workflow) [])"
  define h2 where "h2 = snd (prepare_workflow (clock start_world) h1 (VRef 8) example_request)"
  define w1 where "w1 = snd (submit_generation short_api slow_submit_service start_world)"
  have t: "0 < timeout short_api"
    by (simp add: short_api_def default_api_def)
  have "fst (load_workflow (File_json example_workflow) []) = Some (VRef 8)"
    by code_simp
  then have load: "load_workflow (File_json example_workflow) [] = (Some (VRef 8), h1)"
    by (simp add: h1_def prod_eq_iff)
  have true: "truthy h1 (VRef 8)"
    unfolding h1_def by code_simp
  have "fst (prepare_workflow (clock start_world) h1 (VRef 8) example_request) = Inr (VRef 17)"
    unfolding h1_def by code_simp
  then have prep: "prepare_workflow (clock start_world) h1 (VRef 8) example_request
      = (Inr (VRef 17), h2)"
    by (simp add: h2_def prod_eq_iff)
  have accepted: "fst (submit_generation short_api slow_submit_service start_world)
      = Inr (Some ''p1'')"
    by code_simp
  then have sub: "submit_generation short_api slow_submit_service start_world
      = (Inr (Some ''p1''), w1)"
    by (simp add: w1_def prod_eq_iff)
  have w1: "clock w1 = 3030" "gets w1 = 0"
    unfolding w1_def by code_simp+
  have reply: "get_reply slow_submit_service (gets w1) = Get_response 200 (Some done_outputs)"
    by (simp add: slow_submit_service_def)
  have "fst (generate_image short_api slow_submit_service (File_json example_workflow)
            example_request [] start_world)
      = Inr \<lparr>success = True, prompt_id = Some ''p1'',
             generation_time = Some (int (get_time slow_submit_service (gets w1))),
             images = Some (collect_images done_outputs), error = None\<rparr>"
    using timeout_budget_starts_with_polling [where api = short_api
        and ?file = "File_json example_workflow" and h = "[]" and workflow = "VRef 8"
        and ?h1.0 = h1 and w = start_world and request = example_request
        and prepared = "VRef 17" and ?h2.0 = h2 and s = slow_submit_service
        and pid = "''p1''" and ?w1.0 = w1]
      t load true prep sub reply
    by blast
  moreover have "int (get_time slow_submit_service (gets w1)) = 10"
    "collect_images done_outputs = [Some ''qwen_00001_.png'']"
    by (simp_all add: slow_submit_service_def collect_images_def done_outputs_def)
  ultimately have image: "fst (generate_image short_api slow_submit_service
        (File_json example_workflow) example_request [] start_world)
      = Inr \<lparr>success = True, prompt_id = Some ''p1'', generation_time = Some 10,
             images = Some [Some ''qwen_00001_.png''], error = None\<rparr>"
    by simp
  define b1 where "b1 = snd (batch_load_workflow (File_json example_workflow) [])"
  define r2 where "r2 = set_node_input b1 (VRef 8) ''6'' ''text'' (VStr ''a dragon'')"
  define b2 where "b2 = projr r2"
  define r3 where "r3 = set_node_input b2 (VRef 8) ''3'' ''seed'' (VInt 7)"
  define b3 where "b3 = projr r3"
  define v1 where "v1 = \<lparr>clock = 5000, posts = 1, gets = 0, slept = []\<rparr>"
  have bt: "0 < batch_timeout short_batch"
    by (simp add: short_batch_def)
  have "fst (batch_load_workflow (File_json example_workflow) []) = Some (VRef 8)"
    by code_simp
  then have bload: "batch_load_workflow (File_json example_workflow) [] = (Some (VRef 8), b1)"
    by (simp add: b1_def prod_eq_iff)
  have btrue: "truthy b1 (VRef 8)"
    unfolding b1_def by code_simp
  have "\<not> isl r2"
    unfolding r2_def b1_def by code_simp
  then have s2: "set_node_input b1 (VRef 8) ''6'' ''text'' (VStr (fst (''a dragon'', Some (7 :: int))))
      = Inr b2"
    unfolding b2_def using r2_def by simp
  have "\<not> isl r3"
    unfolding r3_def b2_def r2_def b1_def by code_simp
  then have "r3 = Inr b3"
    unfolding b3_def by simp
  then have s3: "(case snd (''a dragon'', Some (7 :: int)) of
        None \<Rightarrow> Inr b2
      | Some n \<Rightarrow>
          if n \<noteq> 0 then set_node_input b2 (VRef 8) ''3'' ''seed'' (VInt n) else Inr b2)
      = Inr b3"
    using r3_def by simp
  have post: "do_post slow_post_service start_world = (Post_response 200 (Some ''p1''), v1)"
    by (simp add: do_post_def slow_post_service_def start_world_def v1_def)
  have breply: "get_reply slow_post_service (gets v1) = Get_response 200 (Some done_outputs)"
    by (simp add: slow_post_service_def)
  have name: "first_filename done_outputs = Some (Inr ''qwen_00001_.png'')"
    by (simp add: done_outputs_def)
  have "fst (generate_single short_batch slow_post_service (File_json example_workflow)
            (''a dragon'', Some 7) 0 start_world)
      = (initial_result (''a dragon'', Some 7) 0)
          \<lparr>job_success := True, job_filename := Some ''qwen_00001_.png'',
             job_generation_time :=
               int (post_time slow_post_service (posts start_world))
               + int (get_time slow_post_service (gets v1)),
             job_prompt_id := Some ''p1''\<rparr>"
    using timeout_budget_starts_with_polling [where cfg = short_batch
        and ?file = "File_json example_workflow" and workflow = "VRef 8" and ?h1.0 = b1
        and prompt_data = "(''a dragon'', Some 7)" and ?h2.0 = b2 and ?h3.0 = b3
        and s = slow_post_service and w = start_world and pid = "''p1''" and ?w1.0 = v1
        and index = 0]
      bt bload btrue s2 s3 post breply name
    by blast
  then have single: "fst (generate_single short_batch slow_post_service
        (File_json example_workflow) (''a dragon'', Some 7) 0 start_world)
      = \<lparr>job_index = 0, job_prompt = ''a dragon'', job_seed = Some 7, job_success = True,
         job_filename = Some ''qwen_00001_.png'', job_generation_time = 5010,
         job_error = None, job_prompt_id = Some ''p1''\<rparr>"
    by (simp add: initial_result_def slow_post_service_def)
  have post': "do_post slow_post_service start_world
      = (Post_response 200 (Some ''p1''), \<lparr>clock = 5000, posts = 1, gets = 0, slept = []\<rparr>)"
    using post by (simp add: v1_def)
  have r0: "get_reply slow_submit_service 0 = Get_response 200 (Some done_outputs)"
    "get_reply slow_post_service 0 = Get_response 200 (Some done_outputs)"
    by (simp_all add: slow_submit_service_def slow_post_service_def)
  have c1: "clock (snd (submit_generation short_api slow_submit_service start_world)) = 3030"
    using w1(1) by (simp add: w1_def)
  show ?thesis
    using t accepted c1 r0 image bt post' name single by (intro conjI)
qed

text \<open>
  Claim C3 as stated fails. With a timeout of two seconds, a job whose submission is rate
  limited twice starts polling 3030 ms after its first attempt and succeeds at 3040 ms;
  a batch job whose POST takes five seconds succeeds after 5010 ms. Counted from the first
  submission attempt, both would have timed out before their first poll.
\<close>

theorem timeout_not_from_submission_counterexample:
  "fst (generate_image short_api slow_submit_service (File_json example_workflow)
          example_request [] start_world)
     = Inr \<lparr>success = True, prompt_id = Some ''p1'', generation_time = Some 10,
            images = Some [Some ''qwen_00001_.png''], error = None\<rparr>
   \<and> clock (snd (snd (generate_image short_api slow_submit_service (File_json example_workflow)
          example_request [] start_world))) - clock start_world = 3040
   \<and> timeout short_api * 1000 = 2000
   \<and> job_success (fst (generate_single short_batch slow_post_service
          (File_json example_workflow) (''a dragon'', Some 7) 0 start_world))
   \<and> job_generation_time (fst (generate_single short_batch slow_post_service
          (File_json example_workflow) (''a dragon'', Some 7) 0 start_world)) = 5010
   \<and> batch_timeout short_batch * 1000 = 2000"
  by code_simp


text \<open>One round of each polling loop when the history does not have the job.\<close>

lemma quick_wait_loop_absent:
  assumes "get_reply s (gets w) = Get_response 200 None"
    and "clock w - started < quick_timeout g * 1000"
  shows "quick_wait_loop g s pid started w
    = quick_wait_loop g s pid started (advance 1000 (snd (do_get s w)))"
  using assms by (simp add: quick_wait_loop.simps [of g s pid started w] do_get_def)

lemma wait_loop_absent:
  assumes "get_reply s (gets w) = Get_response 200 None"
    and "clock w - started < timeout api * 1000"
  shows "wait_loop api s pid started w
    = wait_loop api s pid started (advance 1000 (snd (do_get s w)))"
  using assms by (simp add: wait_loop.simps [of api s pid started w] do_get_def)

lemma poll_history_absent:
  assumes "get_reply s (gets w) = Get_response 200 None"
    and "clock w - started < batch_timeout cfg * 1000"
  shows "poll_history cfg s started w
    = poll_history cfg s started (advance 1000 (snd (do_get s w)))"
  using assms by (simp add: poll_history.simps [of cfg s started w] do_get_def)

text \<open>A job the history never has ends by timeout only.\<close>

lemma quick_wait_loop_never_found:
  "(\<And>k. get_reply s k = Get_response 200 None) \<Longrightarrow>
     fst (quick_wait_loop g s pid started w) = quick_timeout_result g pid"
proof (induction g s pid started w rule: quick_wait_loop.induct)
  case (1 g s pid started w)
  show ?case
  proof (cases "clock w - started < quick_timeout g * 1000")
    case False
    then show ?thesis
      by (simp add: quick_wait_loop.simps [of g s pid started w])
  next
    case True
    have absent: "get_reply s (gets w) = Get_response 200 None"
      by (rule "1.prems")
    have g: "(Get_response 200 None, snd (do_get s w)) = do_get s w"
      using absent by (simp add: do_get_def)
    show ?thesis
      using quick_wait_loop_absent [OF absent True, of pid]
        "1.IH"(1) [OF True g refl refl refl "1.prems"]
      by simp
  qed
qed

lemma poll_history_never_found:
  "(\<And>k. get_reply s k = Get_response 200 None) \<Longrightarrow>
     fst (poll_history cfg s started w) = Inr None"
proof (induction cfg s started w rule: poll_history.induct)
  case (1 cfg s started w)
  show ?case
  proof (cases "clock w - started < batch_timeout cfg * 1000")
    case False
    then show ?thesis
      by (simp add: poll_history.simps [of cfg s started w])
  next
    case True
    have absent: "get_reply s (gets w) = Get_response 200 None"
      by (rule "1.prems")
    have g: "(Get_response 200 None, snd (do_get s w)) = do_get s w"
      using absent by (simp add: do_get_def)
    show ?thesis
      using poll_history_absent [OF absent True]
        "1.IH"(1) [OF True g refl refl refl "1.prems"]
      by simp
  qed
qed

text \<open>
  Claim C4, as the code has it. A poll answered with status 200 and a history without the
  \<^verbatim>\<open>prompt_id\<close> is taken as not finished yet: in all three clients the loop sleeps one
  second and polls again, as long as the timeout has not run out. A job that the history
  never has ends by timeout only.
\<close>

theorem missing_history_entry_polled_again:
  "(get_reply s (gets w) = Get_response 200 None \<longrightarrow>
      (clock w - started < quick_timeout g * 1000 \<longrightarrow>
         quick_wait_loop g s pid started w
           = quick_wait_loop g s pid started (advance 1000 (snd (do_get s w))))
      \<and> (clock w - started < batch_timeout cfg * 1000 \<longrightarrow>
         poll_history cfg s started w
           = poll_history cfg s started (advance 1000 (snd (do_get s w))))
      \<and> (clock w - started < timeout api * 1000 \<longrightarrow>
         wait_loop api s pid started w
           = wait_loop api s pid started (advance 1000 (snd (do_get s w)))))
   \<and> ((\<forall>k. get_reply s k = Get_response 200 None) \<longrightarrow>
        fst (quick_wait_for_completion g s pid w) = quick_timeout_result g pid
        \<and> fst (poll_history cfg s (clock w) w) = Inr None)"
  using quick_wait_loop_absent [of s w started g pid] poll_history_absent [of s w started cfg]
    wait_loop_absent [of s w started api pid]
    quick_wait_loop_never_found [of s g pid "clock w" w] poll_history_never_found [of s cfg "clock w" w]
  by (simp add: quick_wait_for_completion_def)

text \<open>A first poll without the job, and a service that never has it, under a two second timeout.\<close>

theorem missing_history_entry_polled_again_witness:
  "get_reply late_history_service (gets start_world) = Get_response 200 None
   \<and> clock start_world - 0 < quick_timeout short_quick * 1000
   \<and> quick_wait_loop short_quick late_history_service ''p1'' 0 start_world
       = quick_wait_loop short_quick late_history_service ''p1'' 0
           \<lparr>clock = 1010, posts = 0, gets = 1, slept = [1000]\<rparr>
   \<and> (\<forall>k. get_reply forgetful_service k = Get_response 200 None)
   \<and> fst (quick_wait_for_completion short_quick forgetful_service ''p1'' start_world)
       = \<lparr>quick_prompt_id = ''p1'', quick_images = None, quick_generation_time = 2000,
          quick_success = False, quick_error = Some ''timeout''\<rparr>
   \<and> fst (poll_history short_batch forgetful_service 0 start_world) = Inr None"
proof -
  have a: "get_reply late_history_service (gets start_world) = Get_response 200 None"
    by (simp add: late_history_service_def start_world_def)
  have b: "clock start_world - 0 < quick_timeout short_quick * 1000"
    by (simp add: short_quick_def start_world_def)
  have c: "\<forall>k. get_reply forgetful_service k = Get_response 200 None"
    by (simp add: forgetful_service_def)
  have next_world: "advance 1000 (snd (do_get late_history_service start_world))
      = \<lparr>clock = 1010, posts = 0, gets = 1, slept = [1000]\<rparr>"
    by (simp add: advance_def do_get_def late_history_service_def start_world_def)
  have zero: "clock start_world = 0"
    by (simp add: start_world_def)
  show ?thesis
    using missing_history_entry_polled_again
      [of late_history_service start_world 0 short_quick "''p1''" short_batch short_api]
      missing_history_entry_polled_again
      [of forgetful_service start_world 0 short_quick "''p1''" short_batch short_api]
      a b c next_world zero
    by (simp add: quick_timeout_result_def short_quick_def)
qed

text \<open>
  Claim C4 as stated fails: the first poll does not find the job, the clients poll again
  a second later and the job succeeds.
\<close>

theorem missing_history_entry_counterexample:
  "get_reply late_history_service 0 = Get_response 200 None
   \<and> quick_wait_for_completion short_quick late_history_service ''p1'' start_world
     = (\<lparr>quick_prompt_id = ''p1'', quick_images = Some [Some ''qwen_00001_.png''],
         quick_generation_time = 1020, quick_success = True, quick_error = None\<rparr>,
        \<lparr>clock = 1020, posts = 0, gets = 2, slept = [1000]\<rparr>)
   \<and> generate_single short_batch late_history_service (File_json example_workflow)
        (''a dragon'', Some 7) 0 start_world
     = (\<lparr>job_index = 0, job_prompt = ''a dragon'', job_seed = Some 7, job_success = True,
         job_filename = Some ''qwen_00001_.png'', job_generation_time = 1030,
         job_error = None, job_prompt_id = Some ''p1''\<rparr>,
        \<lparr>clock = 1030, posts = 1, gets = 2, slept = [1000]\<rparr>)"
  by code_simp

text \<open>
  Claim C5, as the code has it. A transport exception while polling ends the loop at once,
  with no further GET: \<^verbatim>\<open>wait_for_completion\<close> of both clients leaves the loop with
  \<^verbatim>\<open>break\<close> and returns the failure result with the error \<^verbatim>\<open>timeout\<close>, and in
  \<^verbatim>\<open>generate_single\<close> the exception leaves the loop and becomes the job's error.
\<close>

theorem poll_error_ends_polling:
  assumes "get_reply s (gets w) = Get_raises msg"
  shows "(clock w - started < timeout api * 1000 \<longrightarrow>
           wait_loop api s pid started w = (timeout_result api pid, snd (do_get s w)))
    \<and> (clock w - started < quick_timeout g * 1000 \<longrightarrow>
           quick_wait_loop g s pid started w = (quick_timeout_result g pid, snd (do_get s w)))
    \<and> (clock w - started < batch_timeout cfg * 1000 \<longrightarrow>
           poll_history cfg s started w = (Inl (RequestException msg), snd (do_get s w)))
    \<and> gets (snd (do_get s w)) = Suc (gets w)"
  using assms
  by (simp add: wait_loop.simps [of api s pid started w]
      quick_wait_loop.simps [of g s pid started w]
      poll_history.simps [of cfg s started w] do_get_def)

text \<open>The first poll of a job fails in transport, under a two second timeout.\<close>

theorem poll_error_ends_polling_witness:
  "get_reply flaky_poll_service (gets start_world) = Get_raises ''connection reset''
   \<and> clock start_world - 0 < timeout short_api * 1000
   \<and> wait_loop short_api flaky_poll_service ''p1'' 0 start_world
       = (\<lparr>success = False, prompt_id = Some ''p1'', generation_time = Some 2000,
           images = None, error = Some ''timeout''\<rparr>,
          \<lparr>clock = 10, posts = 0, gets = 1, slept = []\<rparr>)"
proof -
  have a: "get_reply flaky_poll_service (gets start_world) = Get_raises ''connection reset''"
    by (simp add: flaky_poll_service_def start_world_def)
  have b: "clock start_world - 0 < timeout short_api * 1000"
    by (simp add: short_api_def default_api_def start_world_def)
  have c: "snd (do_get flaky_poll_service start_world)
      = \<lparr>clock = 10, posts = 0, gets = 1, slept = []\<rparr>"
    by (simp add: do_get_def flaky_poll_service_def start_world_def)
  show ?thesis
    using poll_error_ends_polling [OF a, of 0 short_api "''p1''" short_quick short_batch] a b c
    by (simp add: timeout_result_def short_api_def default_api_def)
qed

text \<open>
  Claim C5 as stated fails: the first poll raises, the second would have found the image,
  but both clients return the failure after a single GET.
\<close>

theorem poll_error_counterexample:
  "get_reply flaky_poll_service 0 = Get_raises ''connection reset''
   \<and> get_reply flaky_poll_service 1 = Get_response 200 (Some done_outputs)
   \<and> wait_for_completion short_api flaky_poll_service ''p1'' start_world
     = (\<lparr>success = False, prompt_id = Some ''p1'', generation_time = Some 2000,
         images = None, error = Some ''timeout''\<rparr>,
        \<lparr>clock = 10, posts = 0, gets = 1, slept = []\<rparr>)
   \<and> quick_wait_for_completion short_quick flaky_poll_service ''p1'' start_world
     = (\<lparr>quick_prompt_id = ''p1'', quick_images = None, quick_generation_time = 2000,
         quick_success = False, quick_error = Some ''timeout''\<rparr>,
        \<lparr>clock = 10, posts = 0, gets = 1, slept = []\<rparr>)"
  by code_simp

section \<open>Properties of the batch run and of the summaries\<close>

text \<open>
  The collecting loop changes the results and the two counters only, and it counts every
  future once, whether it returns or raises.
\<close>

lemma collect_frame:
  "config (collect future xs g) = config g
   \<and> total (stats (collect future xs g)) = total (stats g)
   \<and> start_time (stats (collect future xs g)) = start_time (stats g)
   \<and> end_time (stats (collect future xs g)) = end_time (stats g)"
  by (induction xs arbitrary: g) (auto split: sum.splits)

lemma collect_counts:
  "successful (stats (collect future xs g)) + failed (stats (collect future xs g))
     = successful (stats g) + failed (stats g) + int (length xs)"
  by (induction xs arbitrary: g) (auto split: sum.splits)

text \<open>When no future raises, the results are the jobs' results in completion order.\<close>

lemma collect_returned:
  "results (collect (\<lambda>i. Inr (f i)) xs g) = results g @ map f xs
   \<and> successful (stats (collect (\<lambda>i. Inr (f i)) xs g))
       = successful (stats g) + int (length (filter job_success (map f xs)))
   \<and> failed (stats (collect (\<lambda>i. Inr (f i)) xs g))
       = failed (stats g) + int (length (filter (\<lambda>r. \<not> job_success r) (map f xs)))"
  by (induction xs arbitrary: g) auto

text \<open>\<^verbatim>\<open>generate_single\<close> returns a result that is successful or has an error, never both.\<close>

lemma generate_single_terminal:
  "job_index (fst (generate_single cfg s file prompt_data index w)) = index
   \<and> job_success (fst (generate_single cfg s file prompt_data index w))
       = (job_error (fst (generate_single cfg s file prompt_data index w)) = None)"
  by (auto simp: generate_single_def generate_single_try_def initial_result_def Let_def
      split: prod.splits option.splits sum.splits if_splits post_outcome.splits)

text \<open>What \<^verbatim>\<open>run_batch\<close> returns for a positive \<^verbatim>\<open>max_workers\<close>.\<close>

lemma run_batch_returns:
  assumes "0 < max_workers cfg"
  defines "job \<equiv> \<lambda>services files worlds prompts j.
     fst (generate_single cfg (services j) (files j) (prompts ! j) j (worlds j))"
  shows "\<exists>g'. run_batch services files worlds completed t_start t_end (new_generator cfg) prompts
        = (Inr (map (job services files worlds prompts) completed), g')
     \<and> results g' = map (job services files worlds prompts) completed
     \<and> total (stats g') = int (length prompts)
     \<and> start_time (stats g') = Some t_start
     \<and> end_time (stats g') = Some t_end
     \<and> successful (stats g')
         = int (length (filter job_success (map (job services files worlds prompts) completed)))
     \<and> failed (stats g')
         = int (length (filter (\<lambda>r. \<not> job_success r)
                  (map (job services files worlds prompts) completed)))"
proof -
  let ?f = "job services files worlds prompts"
  let ?g1 = "(new_generator cfg)\<lparr>stats := (stats (new_generator cfg))
      \<lparr>start_time := Some t_start, total := int (length prompts)\<rparr>\<rparr>"
  let ?g2 = "collect (\<lambda>i. Inr (?f i)) completed ?g1"
  let ?g3 = "?g2\<lparr>stats := (stats ?g2)\<lparr>end_time := Some t_end, total_time := t_end - t_start\<rparr>\<rparr>"
  have run: "run_batch services files worlds completed t_start t_end (new_generator cfg) prompts
      = (Inr (results ?g3), ?g3)"
    using assms(1) by (simp add: run_batch_def Let_def new_generator_def job_def)
  have res: "results ?g2 = map ?f completed"
    and succ: "successful (stats ?g2) = int (length (filter job_success (map ?f completed)))"
    and fail: "failed (stats ?g2)
        = int (length (filter (\<lambda>r. \<not> job_success r) (map ?f completed)))"
    using collect_returned [of ?f completed ?g1] by (simp_all add: new_generator_def)
  have frame: "total (stats ?g2) = int (length prompts)" "start_time (stats ?g2) = Some t_start"
    using collect_frame [of "\<lambda>i. Inr (?f i)" completed ?g1] by simp_all
  show ?thesis
    unfolding run
    using res succ fail frame by simp
qed

lemma length_completed:
  assumes "distinct completed" and "set completed = {..<n}"
  shows "length completed = n"
  using assms distinct_card [of completed] by simp

text \<open>
  Claim C1, as the code has it. The two counters are set to zero in \<^verbatim>\<open>__init__\<close>
  only, and \<^verbatim>\<open>run_batch\<close> adds to them, while it assigns \<open>total\<close>. On a generator
  whose counters are zero and with a positive \<^verbatim>\<open>max_workers\<close>, \<^verbatim>\<open>run_batch\<close>
  returns, whatever the service does and in whatever order the tasks complete. Afterwards
  \<open>total\<close> is the number of prompts and \<open>successful + failed = total\<close>, the two
  counters being the numbers of successful and of failed results of the batch; there is one
  new result per job, and the result of every job is terminal: successful, or failed with
  an error.
\<close>

theorem run_batch_counts_every_job:
  assumes "0 < max_workers (config g)" and "distinct completed"
    and "set completed = {..<length prompts}"
    and "successful (stats g) = 0" and "failed (stats g) = 0"
  shows "\<exists>rs g'. run_batch services files worlds completed t_start t_end g prompts
        = (Inr (results g @ rs), g')
     \<and> results g' = results g @ rs
     \<and> total (stats g') = int (length prompts)
     \<and> successful (stats g') + failed (stats g') = total (stats g')
     \<and> successful (stats g') = int (length (filter job_success rs))
     \<and> failed (stats g') = int (length (filter (\<lambda>r. \<not> job_success r) rs))
     \<and> length rs = length prompts
     \<and> (\<forall>i<length prompts. \<exists>r\<in>set rs. job_index r = i
           \<and> job_success r = (job_error r = None))"
proof -
  define f where "f = (\<lambda>j. fst (generate_single (config g) (services j) (files j)
      (prompts ! j) j (worlds j)))"
  define g1 where "g1 = g\<lparr>stats := (stats g)\<lparr>start_time := Some t_start,
      total := int (length prompts)\<rparr>\<rparr>"
  define g2 where "g2 = collect (\<lambda>i. Inr (f i)) completed g1"
  define g3 where "g3 = g2\<lparr>stats := (stats g2)\<lparr>end_time := Some t_end,
      total_time := t_end - t_start\<rparr>\<rparr>"
  define rs where "rs = map f completed"
  have run: "run_batch services files worlds completed t_start t_end g prompts
      = (Inr (results g3), g3)"
    using assms(1) by (simp add: run_batch_def Let_def f_def g1_def g2_def g3_def)
  have res: "results g3 = results g @ rs"
    and succ: "successful (stats g3) = int (length (filter job_success rs))"
    and fail: "failed (stats g3) = int (length (filter (\<lambda>r. \<not> job_success r) rs))"
    using collect_returned [of f completed g1] assms(4,5)
    by (simp_all add: g1_def g2_def g3_def rs_def)
  have tot: "total (stats g3) = int (length prompts)"
    using collect_frame [of "\<lambda>i. Inr (f i)" completed g1] by (simp add: g1_def g2_def g3_def)
  have len: "length rs = length prompts"
    using length_completed [OF assms(2,3)] by (simp add: rs_def)
  have "length (filter job_success rs) + length (filter (\<lambda>r. \<not> job_success r) rs) = length rs"
    by (rule sum_length_filter_compl)
  then have sum: "successful (stats g3) + failed (stats g3) = total (stats g3)"
    using succ fail tot len by linarith
  have each: "\<forall>i<length prompts. \<exists>r\<in>set rs. job_index r = i
      \<and> job_success r = (job_error r = None)"
  proof (intro allI impI)
    fix i
    assume "i < length prompts"
    then have "i \<in> set completed"
      using assms(3) by simp
    then have member: "f i \<in> set rs"
      by (simp add: rs_def)
    have "job_index (f i) = i \<and> job_success (f i) = (job_error (f i) = None)"
      unfolding f_def by (rule generate_single_terminal)
    then show "\<exists>r\<in>set rs. job_index r = i \<and> job_success r = (job_error r = None)"
      by (intro bexI [OF _ member])
  qed
  have "run_batch services files worlds completed t_start t_end g prompts
      = (Inr (results g @ rs), g3)"
    using run res by simp
  then show ?thesis
    using res tot succ fail len each sum by blast
qed

text \<open>A new generator and two jobs that complete in the order 1, 0.\<close>

theorem run_batch_counts_every_job_witness:
  "0 < max_workers (config (new_generator short_batch)) \<and> distinct [1, 0 :: nat]
   \<and> set [1, 0] = {..<length example_prompts}
   \<and> successful (stats (new_generator short_batch)) = 0
   \<and> failed (stats (new_generator short_batch)) = 0
   \<and> total (stats (snd (run_batch example_services (\<lambda>i. File_json example_workflow)
         (\<lambda>i. start_world) [1, 0] 0 9000 (new_generator short_batch) example_prompts))) = 2
   \<and> successful (stats (snd (run_batch example_services (\<lambda>i. File_json example_workflow)
         (\<lambda>i. start_world) [1, 0] 0 9000 (new_generator short_batch) example_prompts)))
     + failed (stats (snd (run_batch example_services (\<lambda>i. File_json example_workflow)
         (\<lambda>i. start_world) [1, 0] 0 9000 (new_generator short_batch) example_prompts))) = 2"
proof -
  have a: "0 < max_workers (config (new_generator short_batch))"
    by (simp add: short_batch_def new_generator_def)
  have b: "distinct [1, 0 :: nat]"
    by simp
  have c: "set [1, 0] = {..<length example_prompts}"
    by (auto simp: example_prompts_def)
  have d: "successful (stats (new_generator short_batch)) = 0"
    and e: "failed (stats (new_generator short_batch)) = 0"
    by (simp_all add: new_generator_def)
  have len: "int (length example_prompts) = 2"
    by (simp add: example_prompts_def)
  obtain returned g' where run: "run_batch example_services (\<lambda>i. File_json example_workflow)
         (\<lambda>i. start_world) [1, 0] 0 9000 (new_generator short_batch) example_prompts
       = (returned, g')"
    and tot: "total (stats g') = int (length example_prompts)"
    and sum: "successful (stats g') + failed (stats g') = total (stats g')"
    using run_batch_counts_every_job [OF a b c d e, of example_services
        "\<lambda>i. File_json example_workflow" "\<lambda>i. start_world" 0 9000]
    by blast
  have g': "snd (run_batch example_services (\<lambda>i. File_json example_workflow)
         (\<lambda>i. start_world) [1, 0] 0 9000 (new_generator short_batch) example_prompts) = g'"
    by (simp only: run snd_conv)
  have "total (stats g') = 2" "successful (stats g') + failed (stats g') = 2"
    using tot sum len by simp_all
  then show ?thesis
    unfolding g' using a b c d e by (intro conjI)
qed

text \<open>
  Claim C1 as stated fails on a generator that has run a batch before. A second batch of
  two jobs leaves \<open>total\<close> at 2, while the counters hold the jobs of both batches:
  \<open>successful + failed = 4\<close>.
\<close>

theorem run_batch_reused_generator_counterexample:
  "successful (stats used_generator) + failed (stats used_generator) = 2
   \<and> total (stats used_generator) = 2
   \<and> (case run_batch example_services (\<lambda>i. File_json example_workflow) (\<lambda>i. start_world)
             [1, 0] 9000 18000 used_generator example_prompts of
        (returned, g) \<Rightarrow>
          total (stats g) = 2 \<and> successful (stats g) = 2 \<and> failed (stats g) = 2
          \<and> successful (stats g) + failed (stats g) \<noteq> total (stats g)
          \<and> length (results g) = 4)"
  by code_simp

text \<open>
  Claim C7. When an exception \<open>e\<close> is raised while job \<open>i\<close> is driven (inside the
  \<^verbatim>\<open>try\<close> block of \<^verbatim>\<open>generate_single\<close>, where all the work of a job is done), it is
  caught there: the job's result is its initial dictionary with \<^verbatim>\<open>success\<close> false and
  \<^verbatim>\<open>error = str(e)\<close>. \<^verbatim>\<open>run_batch\<close> still returns, with that result among the
  results, with the result of every other job as that job's own run gives it, and with the
  failure counted.
\<close>

theorem worker_exception_becomes_failed_result:
  assumes "0 < max_workers cfg" and "distinct completed"
    and "set completed = {..<length prompts}" and "i < length prompts"
    and "fst (generate_single_try cfg (services i) (files i) (prompts ! i) i (worlds i)) = Inl e"
  shows "\<exists>rs g'. run_batch services files worlds completed t_start t_end (new_generator cfg) prompts
        = (Inr rs, g')
     \<and> (initial_result (prompts ! i) i)\<lparr>job_error := Some (exception_str e)\<rparr> \<in> set rs
     \<and> rs = map (\<lambda>j. fst (generate_single cfg (services j) (files j) (prompts ! j) j
                            (worlds j))) completed
     \<and> length rs = length prompts
     \<and> 1 \<le> failed (stats g')"
proof -
  define f where "f = (\<lambda>j. fst (generate_single cfg (services j) (files j) (prompts ! j) j (worlds j)))"
  obtain g' where run: "run_batch services files worlds completed t_start t_end
        (new_generator cfg) prompts = (Inr (map f completed), g')"
    and fail: "failed (stats g') = int (length (filter (\<lambda>r. \<not> job_success r) (map f completed)))"
    using run_batch_returns [OF assms(1), of services files worlds completed t_start t_end prompts]
    unfolding f_def by blast
  have failed_record: "f i = (initial_result (prompts ! i) i)\<lparr>job_error := Some (exception_str e)\<rparr>"
    using assms(5) unfolding f_def generate_single_def
    by (cases "generate_single_try cfg (services i) (files i) (prompts ! i) i (worlds i)") simp
  have "i \<in> set completed"
    using assms(3,4) by simp
  then have member: "f i \<in> set (map f completed)"
    by simp
  have "\<not> job_success (f i)"
    unfolding failed_record by (simp add: initial_result_def)
  then have "f i \<in> set (filter (\<lambda>r. \<not> job_success r) (map f completed))"
    using member by simp
  then have "0 < length (filter (\<lambda>r. \<not> job_success r) (map f completed))"
    by (rule length_pos_if_in_set)
  then have one: "1 \<le> failed (stats g')"
    using fail by linarith
  have len: "length (map f completed) = length prompts"
    using length_completed [OF assms(2,3)] by simp
  have "run_batch services files worlds completed t_start t_end (new_generator cfg) prompts
        = (Inr (map f completed), g')
      \<and> (initial_result (prompts ! i) i)\<lparr>job_error := Some (exception_str e)\<rparr>
          \<in> set (map f completed)
      \<and> map f completed = map f completed
      \<and> length (map f completed) = length prompts
      \<and> 1 \<le> failed (stats g')"
    using run member one len failed_record by simp
  then show ?thesis
    unfolding f_def by (intro exI)
qed

text \<open>Job 1 cannot reach the service; job 0 is served and succeeds.\<close>

theorem worker_exception_becomes_failed_result_witness:
  "0 < max_workers short_batch \<and> distinct [1, 0 :: nat]
   \<and> set [1, 0] = {..<length example_prompts} \<and> 1 < length example_prompts
   \<and> fst (generate_single_try short_batch (example_services 1) (File_json example_workflow)
        (example_prompts ! 1) 1 start_world) = Inl (RequestException ''connection refused'')
   \<and> fst (run_batch example_services (\<lambda>i. File_json example_workflow)
         (\<lambda>i. start_world) [1, 0] 0 9000 (new_generator short_batch) example_prompts)
      = Inr [\<lparr>job_index = 1, job_prompt = ''a cat'', job_seed = None, job_success = False,
               job_filename = None, job_generation_time = 0,
               job_error = Some ''connection refused'', job_prompt_id = None\<rparr>,
             \<lparr>job_index = 0, job_prompt = ''a dragon'', job_seed = Some 7, job_success = True,
               job_filename = Some ''qwen_00001_.png'', job_generation_time = 5010,
               job_error = None, job_prompt_id = Some ''p1''\<rparr>]"
proof -
  have a: "0 < max_workers short_batch"
    by (simp add: short_batch_def)
  have b: "distinct [1, 0 :: nat]"
    by simp
  have c: "set [1, 0] = {..<length example_prompts}"
    by (auto simp: example_prompts_def)
  have d: "1 < length example_prompts"
    by (simp add: example_prompts_def)
  have e: "fst (generate_single_try short_batch (example_services 1) (File_json example_workflow)
        (example_prompts ! 1) 1 start_world) = Inl (RequestException ''connection refused'')"
    by code_simp
  have r1: "fst (generate_single short_batch (example_services 1) (File_json example_workflow)
        (example_prompts ! 1) 1 start_world)
      = \<lparr>job_index = 1, job_prompt = ''a cat'', job_seed = None, job_success = False,
               job_filename = None, job_generation_time = 0,
               job_error = Some ''connection refused'', job_prompt_id = None\<rparr>"
    by code_simp
  have r0: "fst (generate_single short_batch (example_services 0) (File_json example_workflow)
        (example_prompts ! 0) 0 start_world)
      = \<lparr>job_index = 0, job_prompt = ''a dragon'', job_seed = Some 7, job_success = True,
               job_filename = Some ''qwen_00001_.png'', job_generation_time = 5010,
               job_error = None, job_prompt_id = Some ''p1''\<rparr>"
    by code_simp
  obtain rs g' where run: "run_batch example_services (\<lambda>i. File_json example_workflow)
         (\<lambda>i. start_world) [1, 0] 0 9000 (new_generator short_batch) example_prompts
       = (Inr rs, g')"
    and rs: "rs = map (\<lambda>j. fst (generate_single short_batch (example_services j)
         (File_json example_workflow) (example_prompts ! j) j start_world)) [1, 0]"
    using worker_exception_becomes_failed_result
        [where cfg = short_batch and completed = "[1, 0]" and prompts = example_prompts
          and i = 1 and services = example_services
          and files = "\<lambda>i. File_json example_workflow" and worlds = "\<lambda>i. start_world"
          and e = "RequestException ''connection refused''" and t_start = 0 and t_end = 9000,
          OF a b c d e]
    by blast
  have "fst (run_batch example_services (\<lambda>i. File_json example_workflow)
         (\<lambda>i. start_world) [1, 0] 0 9000 (new_generator short_batch) example_prompts)
      = Inr rs"
    by (simp only: run fst_conv)
  then show ?thesis
    unfolding rs list.map r0 r1 using a b c d e by (intro conjI)
qed








section \<open>Properties of \<^verbatim>\<open>prepare_workflow\<close>\<close>


































































end
